theory Spec2Isabelle
  imports Complex_Main "HOL-Library.Log_Nat"
begin

section \<open>Order payment lifecycle of the starfarmer backend\<close>

text \<open>
  The development embeds the payment core of the backend: the checksum helpers of
  \<^verbatim>\<open>utils/phonepe.js\<close>, the order schema and its pre-save hook of
  \<^verbatim>\<open>models/order.js\<close>, the gateway callback handler of \<^verbatim>\<open>routes/payment.js\<close> and the
  order routes of \<^verbatim>\<open>routes/order.js\<close>.

  Conventions.
  \<^item> JavaScript strings are \<open>string\<close>; a value that may be \<^verbatim>\<open>undefined\<close> is an \<open>option\<close>.
    A string is falsy when it is absent or empty.
  \<^item> A JavaScript number is an IEEE 754 double: not-a-number, an infinity, the negative
    zero, or a finite double, which is a rational of the form \<open>m * 2 ^ e\<close>. Division
    rounds to the nearest double, ties to even.
  \<^item> The total of a checkout request is any JSON value; the other fields of a request have
    the type the schema gives them (numbers are numbers, strings are strings) and may be
    missing.
  \<^item> The order collection is the list of its documents in natural order; \<^verbatim>\<open>findOne\<close>
    returns the first match.
  \<^item> Library and network calls (SHA-256, base64 and JSON decoding, the gateway's HTTP
    answer, id generation) are parameters of the handlers.
  \<^item> Every database call and every notification appends an event to a trace carried in
    the state, so that "nothing is read" and "nothing is sent" are statements about it.
  \<^item> Database calls do not fail: a storage error, which the handlers pass on or answer
    with status 500, is outside the model.
\<close>

subsection \<open>JavaScript numbers\<close>

text \<open>Powers of two with an integer exponent.\<close>

definition pow2 :: "int \<Rightarrow> rat" where
  "pow2 e = (if 0 \<le> e then 2 ^ nat e else 1 / 2 ^ nat (- e))"

text \<open>The finite doubles: a significand of at most 53 bits and an exponent between -1074
  (the subnormal numbers) and 971 (the largest number is \<open>(2 ^ 53 - 1) * 2 ^ 971\<close>).\<close>

definition is_double :: "rat \<Rightarrow> bool" where
  "is_double r = (\<exists>m e. r = of_int m * pow2 e \<and> \<bar>m\<bar> < 2 ^ 53 \<and> - 1074 \<le> e \<and> e \<le> 971)"

typedef double = "{r. is_double r}"
  morphisms double_value double_of
proof
  have "(0::rat) = of_int 0 * pow2 0 \<and> \<bar>0::int\<bar> < 2 ^ 53 \<and> (- 1074::int) \<le> 0 \<and> (0::int) \<le> 971"
    by simp
  then show "0 \<in> {r. is_double r}"
    unfolding is_double_def by blast
qed

text \<open>A Number. \<open>Finite (double_of 0)\<close> is the positive zero.\<close>

datatype jsnum = NaN | PosInf | NegInf | NegZero | Finite double

text \<open>The Number of an integer whose magnitude is below \<open>2 ^ 53\<close>.\<close>

definition js_int :: "int \<Rightarrow> jsnum" where
  "js_int n = Finite (double_of (of_int n))"

fun js_negative :: "jsnum \<Rightarrow> bool" where
  "js_negative NegInf = True"
| "js_negative NegZero = True"
| "js_negative (Finite d) = (double_value d < 0)"
| "js_negative _ = False"

fun js_is_zero :: "jsnum \<Rightarrow> bool" where
  "js_is_zero NegZero = True"
| "js_is_zero (Finite d) = (double_value d = 0)"
| "js_is_zero _ = False"

fun js_is_inf :: "jsnum \<Rightarrow> bool" where
  "js_is_inf PosInf = True"
| "js_is_inf NegInf = True"
| "js_is_inf _ = False"

text \<open>The value of a Number that is finite (0 for the others).\<close>

fun js_value :: "jsnum \<Rightarrow> rat" where
  "js_value (Finite d) = double_value d"
| "js_value _ = 0"

text \<open>Rounding of a positive rational to the nearest double, ties to even. \<open>floor_log2 r\<close> is
  the exponent \<open>k\<close> with \<open>2 ^ k \<le> r < 2 ^ (k + 1)\<close>; the significand of the result is the
  rational scaled to 53 bits (fewer for a subnormal result) and rounded to an integer. The
  result can be \<open>2 ^ 1024\<close>, which stands for an overflow, or 0, an underflow.\<close>

definition floor_log2 :: "rat \<Rightarrow> int" where
  "floor_log2 r =
     (if 1 \<le> r then int (floorlog 2 (nat \<lfloor>r\<rfloor>)) - 1
      else - int (floorlog 2 (nat (\<lceil>1 / r\<rceil> - 1))))"

definition round_half_even :: "rat \<Rightarrow> int" where
  "round_half_even x =
     (let f = \<lfloor>x\<rfloor>; d = x - of_int f
      in if d < 1 / 2 then f else if 1 / 2 < d then f + 1 else if even f then f else f + 1)"

definition round_mag :: "rat \<Rightarrow> rat" where
  "round_mag a =
     (let e = max (floor_log2 a - 52) (- 1074)
      in of_int (round_half_even (a / pow2 e)) * pow2 e)"

text \<open>The Number nearest to a rational that is not 0, given by its sign and its magnitude.\<close>

definition round_signed :: "bool \<Rightarrow> rat \<Rightarrow> jsnum" where
  "round_signed negative a =
     (let v = round_mag a
      in if pow2 1024 \<le> v then (if negative then NegInf else PosInf)
         else if v = 0 then (if negative then NegZero else Finite (double_of 0))
         else Finite (double_of (if negative then - v else v)))"

text \<open>The Number that a numeric literal with the exact value \<open>r\<close> denotes.\<close>

definition js_number :: "rat \<Rightarrow> jsnum" where
  "js_number r = (if r = 0 then Finite (double_of 0) else round_signed (r < 0) \<bar>r\<bar>)"

text \<open>\<^verbatim>\<open>x / y\<close> on Numbers.\<close>

definition js_div :: "jsnum \<Rightarrow> jsnum \<Rightarrow> jsnum" where
  "js_div x y =
     (if x = NaN \<or> y = NaN then NaN
      else if js_is_inf x \<and> js_is_inf y then NaN
      else if js_is_zero x \<and> js_is_zero y then NaN
      else
        (let negative = (js_negative x \<noteq> js_negative y)
         in if js_is_inf x \<or> js_is_zero y then (if negative then NegInf else PosInf)
            else if js_is_zero x \<or> js_is_inf y then
              (if negative then NegZero else Finite (double_of 0))
            else round_signed negative (\<bar>js_value x\<bar> / \<bar>js_value y\<bar>)))"

text \<open>\<^verbatim>\<open>x !== y\<close> on Numbers: \<^verbatim>\<open>NaN\<close> differs from everything, itself included, and the
  two zeros are equal.\<close>

definition js_strict_neq :: "jsnum \<Rightarrow> jsnum \<Rightarrow> bool" where
  "js_strict_neq x y =
     (x = NaN \<or> y = NaN \<or> (x \<noteq> y \<and> \<not> (js_is_zero x \<and> js_is_zero y)))"

text \<open>\<^verbatim>\<open>x >= y\<close> on Numbers.\<close>

definition js_ge :: "jsnum \<Rightarrow> jsnum \<Rightarrow> bool" where
  "js_ge x y =
     (x \<noteq> NaN \<and> y \<noteq> NaN
      \<and> (x = PosInf \<or> y = NegInf
          \<or> (x \<noteq> NegInf \<and> y \<noteq> PosInf \<and> js_value y \<le> js_value x)))"

text \<open>Conversion to a Number of a value that is a Number or \<^verbatim>\<open>undefined\<close>.\<close>

fun js_to_number :: "jsnum option \<Rightarrow> jsnum" where
  "js_to_number None = NaN"
| "js_to_number (Some n) = n"

subsection \<open>JavaScript values\<close>

text \<open>A value of a JSON body. \<open>JObject\<close> stands for every object and array; the handlers do
  not look into one where a total is expected.\<close>

datatype jsval = JUndefined | JNull | JBoolean bool | JNumber jsnum | JString string | JObject

text \<open>\<^verbatim>\<open>!v\<close>.\<close>

fun js_falsy :: "jsval \<Rightarrow> bool" where
  "js_falsy JUndefined = True"
| "js_falsy JNull = True"
| "js_falsy (JBoolean b) = (\<not> b)"
| "js_falsy (JNumber n) = (n = NaN \<or> js_is_zero n)"
| "js_falsy (JString s) = (s = [])"
| "js_falsy JObject = False"

text \<open>Truthiness of a possibly absent string, and string conversion of a possibly absent
  operand of \<^verbatim>\<open>+\<close>.\<close>

fun truthy :: "string option \<Rightarrow> bool" where
  "truthy None = False"
| "truthy (Some s) = (s \<noteq> [])"

fun js_str :: "string option \<Rightarrow> string" where
  "js_str None = ''undefined''"
| "js_str (Some s) = s"

subsection \<open>Checksum helpers (utils/phonepe.js)\<close>

text \<open>The hex SHA-256 digest, \<^verbatim>\<open>crypto.createHash("sha256").update(s).digest("hex")\<close>, is the
  parameter \<open>sha256hex\<close>.\<close>

definition calculateChecksum :: "(string \<Rightarrow> string) \<Rightarrow> string \<Rightarrow> string \<Rightarrow> string \<Rightarrow> string" where
  "calculateChecksum sha256hex payloadBase64 saltKey saltIndex =
     (let stringToHash = payloadBase64 @ ''/pg/v1/pay'' @ saltKey;
          sha256 = sha256hex stringToHash
      in sha256 @ ''###'' @ saltIndex)"

text \<open>
  In \<^verbatim>\<open>verifyChecksum\<close> the expected checksum is the template literal
  \<^verbatim>\<open>`<span class="math-inline">\{sha256\}\#\#\#</span>{saltIndex}`\<close>.
  It holds no \<^verbatim>\<open>${...}\<close> substitution; the escapes \<^verbatim>\<open>\{\<close>, \<^verbatim>\<open>\}\<close> and \<^verbatim>\<open>\#\<close> stand
  for the characters themselves. Its value is therefore one fixed string, written here with
  the double quote as character \<open>0x22\<close>.
\<close>

definition expectedChecksum_literal :: string where
  "expectedChecksum_literal =
     ''<span class='' @ [CHR 0x22] @ ''math-inline'' @ [CHR 0x22] @ ''>{sha256}###</span>{saltIndex}''"

definition verifyChecksum :: "(string \<Rightarrow> string) \<Rightarrow> string \<Rightarrow> string \<Rightarrow> string \<Rightarrow> string \<Rightarrow> bool" where
  "verifyChecksum sha256hex payloadBase64 receivedChecksum saltKey saltIndex =
     (let stringToHash = payloadBase64 @ saltKey;
          sha256 = sha256hex stringToHash;
          expectedChecksum = expectedChecksum_literal
      in expectedChecksum = receivedChecksum)"

text \<open>The callback-mode formula as the specification words it: the hex digest of payload
  followed by salt key, then \<open>###\<close>, then the salt index.\<close>

definition callbackChecksum_spec :: "(string \<Rightarrow> string) \<Rightarrow> string \<Rightarrow> string \<Rightarrow> string \<Rightarrow> string" where
  "callbackChecksum_spec sha256hex payloadBase64 saltKey saltIndex =
     sha256hex (payloadBase64 @ saltKey) @ ''###'' @ saltIndex"

subsection \<open>The order schema (models/order.js)\<close>

datatype payment_method = Cod | Online

datatype payment_status = Pending | Paid | Failed | Not_applicable

datatype payment_gateway = Gateway_cod | Phonepe

datatype order_status =
    Payment_pending | Processing | Shipped | Delivered | Completed | Cancelled
  | Payment_failed | Payment_issue

record order_item =
  productId :: nat
  quantity :: jsnum
  price :: jsnum

record address =
  fullName :: string
  phone :: string
  addressLine1 :: string
  addressLine2 :: "string option"
  city :: string
  state :: string
  pincode :: string

text \<open>A stored order document. \<open>order_id\<close> is the document's \<^verbatim>\<open>_id\<close>; \<open>order_total\<close> is
  the field \<^verbatim>\<open>total\<close>.\<close>

record order =
  order_id :: nat
  userId :: nat
  items :: "order_item list"
  shippingAddress :: address
  paymentMethod :: payment_method
  shippingCharge :: jsnum
  order_total :: jsnum
  merchantTransactionId :: "string option"
  gatewayTransactionId :: "string option"
  paymentStatus :: payment_status
  paymentGateway :: "payment_gateway option"
  status :: order_status

text \<open>The pre-save hook. \<open>isNew\<close> is Mongoose's flag of a document that was never stored.\<close>

definition pre_save :: "bool \<Rightarrow> order \<Rightarrow> order" where
  "pre_save isNew this =
     (if paymentMethod this = Cod then
        (let this1 = this\<lparr>paymentStatus := Not_applicable\<rparr>
         in if isNew then this1\<lparr>status := Processing\<rparr> else this1)
      else if isNew then this\<lparr>paymentStatus := Pending, status := Payment_pending\<rparr>
      else this)"

subsection \<open>The store and its trace\<close>

datatype event =
    FindOne_mtid string
  | FindOne_mtid_user string nat
  | FindById nat
  | Save nat
  | Insert nat
  | FindByIdAndUpdate nat
  | GatewayPay string
  | SendOrderConfirmation string nat
  | SendOrderNotificationToAdmin nat

text \<open>\<open>users\<close> is the user collection as far as \<^verbatim>\<open>populate\<close> reads it: the e-mail address
  of a user id, if the user exists.\<close>

record world =
  orders :: "order list"
  users :: "nat \<Rightarrow> string option"
  events :: "event list"

definition emit :: "event list \<Rightarrow> world \<Rightarrow> world" where
  "emit es w = w\<lparr>events := events w @ es\<rparr>"

text \<open>\<^verbatim>\<open>updateOne({_id: ...})\<close>: the first document with the id is replaced.\<close>

fun update_by_id :: "order \<Rightarrow> order list \<Rightarrow> order list" where
  "update_by_id d [] = []"
| "update_by_id d (x # xs) =
     (if order_id x = order_id d then d # xs else x # update_by_id d xs)"

definition findById :: "nat \<Rightarrow> order list \<Rightarrow> order option" where
  "findById i db = find (\<lambda>x. order_id x = i) db"

definition findOne_mtid :: "string \<Rightarrow> order list \<Rightarrow> order option" where
  "findOne_mtid m db = find (\<lambda>x. merchantTransactionId x = Some m) db"

text \<open>\<^verbatim>\<open>order.save()\<close> on a document that was loaded from the store: the hook runs with
  \<open>isNew = False\<close>, then the document is written under its id.\<close>

definition save :: "order \<Rightarrow> world \<Rightarrow> world" where
  "save doc w =
     emit [Save (order_id doc)] (w\<lparr>orders := update_by_id (pre_save False doc) (orders w)\<rparr>)"

subsection \<open>The gateway callback (routes/payment.js)\<close>

record callback_data =
  data_merchantTransactionId :: "string option"
  data_transactionId :: "string option"
  data_state :: "string option"
  data_responseCode :: "string option"
  data_amount :: "jsnum option"

text \<open>The decoded callback, with the types of the gateway's schema: the success flag is a
  boolean, codes and ids are strings, the amount is a number; every field of the data block,
  and the data block itself, may be missing.\<close>

record decoded_response =
  success :: bool
  code :: "string option"
  message :: "string option"
  data :: "callback_data option"

text \<open>The request: \<^verbatim>\<open>req.body.response\<close> and the header \<^verbatim>\<open>x-verify\<close>.\<close>

record callback_request =
  body_response :: "string option"
  header_x_verify :: "string option"

text \<open>The configuration read from the environment (any variable may be unset), and the
  library calls: the digest, \<^verbatim>\<open>JSON.parse(Buffer.from(s, "base64").toString("utf8"))\<close>, which
  is \<open>None\<close> where it throws, and \<^verbatim>\<open>Number(s)\<close> on a string.\<close>

record env =
  PHONEPE_MERCHANT_ID :: "string option"
  PHONEPE_SALT_KEY :: "string option"
  PHONEPE_SALT_INDEX :: "string option"
  PHONEPE_PAY_API_URL :: "string option"
  PHONEPE_REDIRECT_URL :: "string option"
  PHONEPE_CALLBACK_URL :: "string option"
  sha256hex :: "string \<Rightarrow> string"
  decode_payload :: "string \<Rightarrow> decoded_response option"
  string_to_number :: "string \<Rightarrow> jsnum"

type_synonym http_reply = "nat \<times> string"

text \<open>Steps 1 to 5 of the handler: everything up to and including the idempotency check. The
  result is either the reply of an early \<^verbatim>\<open>return\<close>, or the loaded order document together
  with the decoded data the later steps use. A payload that does not decode throws, and the
  \<^verbatim>\<open>catch\<close> block answers 500.\<close>

definition callback_lookup ::
  "env \<Rightarrow> callback_request \<Rightarrow> world
     \<Rightarrow> (http_reply + order \<times> decoded_response \<times> callback_data) \<times> world" where
  "callback_lookup env req w =
     (case body_response req of
        None \<Rightarrow> (Inl (400, ''Invalid callback: Missing response payload''), w)
      | Some encodedResponse \<Rightarrow>
        if encodedResponse = [] then
          (Inl (400, ''Invalid callback: Missing response payload''), w)
        else
        (case header_x_verify req of
           None \<Rightarrow> (Inl (400, ''Invalid callback: Missing verification header''), w)
         | Some receivedChecksum \<Rightarrow>
           if receivedChecksum = [] then
             (Inl (400, ''Invalid callback: Missing verification header''), w)
           else if \<not> verifyChecksum (sha256hex env) encodedResponse receivedChecksum
                      (js_str (PHONEPE_SALT_KEY env)) (js_str (PHONEPE_SALT_INDEX env)) then
             (Inl (400, ''Checksum mismatch''), w)
           else
           (case decode_payload env encodedResponse of
              None \<Rightarrow> (Inl (500, ''Internal Server Error processing callback.''), w)
            | Some decodedResponse \<Rightarrow>
              (case data decodedResponse of
                 None \<Rightarrow>
                   (Inl (200, ''Callback acknowledged, missing merchant transaction ID.''), w)
               | Some d \<Rightarrow>
                 if \<not> truthy (data_merchantTransactionId d) then
                   (Inl (200, ''Callback acknowledged, missing merchant transaction ID.''), w)
                 else
                 (let mtid = js_str (data_merchantTransactionId d);
                      w1 = emit [FindOne_mtid mtid] w
                  in case findOne_mtid mtid (orders w1) of
                       None \<Rightarrow> (Inl (200, ''Order not found, acknowledged.''), w1)
                     | Some ord \<Rightarrow>
                       if paymentStatus ord = Paid \<or> paymentStatus ord = Failed then
                         (Inl (200, ''Already processed.''), w1)
                       else (Inr (ord, decodedResponse, d), w1))))))"

text \<open>Step 7: the e-mails. The order is loaded again and populated; reading
  \<^verbatim>\<open>populatedOrder.userId.email\<close> of a user that no longer exists throws before anything is
  sent, and the inner \<^verbatim>\<open>catch\<close> only logs.\<close>

definition send_emails :: "order \<Rightarrow> world \<Rightarrow> world" where
  "send_emails ord w =
     (let w1 = emit [FindById (order_id ord)] w
      in case findById (order_id ord) (orders w1) of
           None \<Rightarrow> w1
         | Some populatedOrder \<Rightarrow>
           (case users w1 (userId populatedOrder) of
              None \<Rightarrow> w1
            | Some email \<Rightarrow>
                emit [SendOrderConfirmation email (order_id populatedOrder),
                      SendOrderNotificationToAdmin (order_id populatedOrder)] w1))"

text \<open>Steps 6 to 8, on the document that step 4 loaded.\<close>

definition callback_apply :: "order \<Rightarrow> decoded_response \<Rightarrow> callback_data \<Rightarrow> world \<Rightarrow> http_reply \<times> world" where
  "callback_apply ord decodedResponse d w =
     (let gatewayTransactionId' = data_transactionId d;
          paymentState = data_state d;
          responseCode = data_responseCode d
      in if success decodedResponse \<and> code decodedResponse = Some ''PAYMENT_SUCCESS''
            \<and> paymentState = Some ''COMPLETED'' \<and> responseCode = Some ''SUCCESS'' then
           (let paymentAmount = js_div (js_to_number (data_amount d)) (js_int 100);
                ord1 = (if js_strict_neq paymentAmount (order_total ord)
                        then ord\<lparr>status := Payment_issue, paymentStatus := Paid\<rparr>
                        else ord\<lparr>status := Processing, paymentStatus := Paid\<rparr>);
                ord2 = ord1\<lparr>gatewayTransactionId := gatewayTransactionId'\<rparr>;
                w1 = save ord2 w;
                w2 = send_emails ord2 w1
            in ((200, ''Callback processed successfully.''), w2))
         else
           (let ord1 = ord\<lparr>status := Payment_failed, paymentStatus := Failed\<rparr>;
                ord2 = ord1\<lparr>gatewayTransactionId := gatewayTransactionId'\<rparr>;
                w1 = save ord2 w
            in ((200, ''Callback processed successfully.''), w1)))"

text \<open>The handler of \<^verbatim>\<open>POST /phonepe-callback\<close>.\<close>

definition phonepe_callback :: "env \<Rightarrow> callback_request \<Rightarrow> world \<Rightarrow> http_reply \<times> world" where
  "phonepe_callback env req w =
     (case callback_lookup env req w of
        (Inl reply, w1) \<Rightarrow> (reply, w1)
      | (Inr (ord, decodedResponse, d), w1) \<Rightarrow> callback_apply ord decodedResponse d w1)"

text \<open>Two deliveries whose handlers overlap: each \<^verbatim>\<open>await\<close> lets the other request run, so
  both may finish step 4 before either reaches step 6. The schedule below runs the lookup of
  the first, the lookup of the second, then the remaining steps of the first and of the
  second.\<close>

definition callback_overlapped ::
  "env \<Rightarrow> callback_request \<Rightarrow> callback_request \<Rightarrow> world
     \<Rightarrow> (http_reply \<times> http_reply) \<times> world" where
  "callback_overlapped env req1 req2 w =
     (case callback_lookup env req1 w of (r1, w1) \<Rightarrow>
      case callback_lookup env req2 w1 of (r2, w2) \<Rightarrow>
      case (case r1 of Inl reply \<Rightarrow> (reply, w2)
                     | Inr (ord, dr, d) \<Rightarrow> callback_apply ord dr d w2) of (reply1, w3) \<Rightarrow>
      case (case r2 of Inl reply \<Rightarrow> (reply, w3)
                     | Inr (ord, dr, d) \<Rightarrow> callback_apply ord dr d w3) of (reply2, w4) \<Rightarrow>
        ((reply1, reply2), w4))"

text \<open>The same two deliveries one after the other.\<close>

definition callback_sequential ::
  "env \<Rightarrow> callback_request \<Rightarrow> callback_request \<Rightarrow> world
     \<Rightarrow> (http_reply \<times> http_reply) \<times> world" where
  "callback_sequential env req1 req2 w =
     (case phonepe_callback env req1 w of (reply1, w1) \<Rightarrow>
      case phonepe_callback env req2 w1 of (reply2, w2) \<Rightarrow> ((reply1, reply2), w2))"

subsection \<open>Creating orders (Order.create)\<close>

text \<open>Request data as it arrives: any field may be missing.\<close>

record item_in =
  in_productId :: "nat option"
  in_quantity :: "jsnum option"
  in_price :: "jsnum option"

record address_in =
  in_fullName :: "string option"
  in_phone :: "string option"
  in_addressLine1 :: "string option"
  in_addressLine2 :: "string option"
  in_city :: "string option"
  in_state :: "string option"
  in_pincode :: "string option"

text \<open>The object handed to \<^verbatim>\<open>Order.create\<close>. A caller may set every path of the schema,
  including \<^verbatim>\<open>paymentStatus\<close> and \<^verbatim>\<open>status\<close>.\<close>

record order_data =
  od_userId :: "nat option"
  od_items :: "item_in list"
  od_shippingAddress :: "address_in option"
  od_paymentMethod :: "string option"
  od_paymentGateway :: "string option"
  od_shippingCharge :: "jsnum option"
  od_total :: jsval
  od_merchantTransactionId :: "string option"
  od_gatewayTransactionId :: "string option"
  od_paymentStatus :: "string option"
  od_status :: "string option"

datatype error = AppError string nat | ValidationError | TypeError

text \<open>The schema's enumerations.\<close>

definition payment_method_of :: "string \<Rightarrow> payment_method option" where
  "payment_method_of s =
     (if s = ''cod'' then Some Cod else if s = ''online'' then Some Online else None)"

definition payment_status_of :: "string \<Rightarrow> payment_status option" where
  "payment_status_of s =
     (if s = ''pending'' then Some Pending else if s = ''paid'' then Some Paid
      else if s = ''failed'' then Some Failed
      else if s = ''not_applicable'' then Some Not_applicable else None)"

definition payment_gateway_of :: "string \<Rightarrow> payment_gateway option" where
  "payment_gateway_of s =
     (if s = ''cod'' then Some Gateway_cod else if s = ''phonepe'' then Some Phonepe else None)"

definition order_status_of :: "string \<Rightarrow> order_status option" where
  "order_status_of s =
     (if s = ''payment_pending'' then Some Payment_pending
      else if s = ''processing'' then Some Processing
      else if s = ''shipped'' then Some Shipped
      else if s = ''delivered'' then Some Delivered
      else if s = ''completed'' then Some Completed
      else if s = ''cancelled'' then Some Cancelled
      else if s = ''payment_failed'' then Some Payment_failed
      else if s = ''payment_issue'' then Some Payment_issue else None)"

text \<open>Mongoose's cast of a value to the type Number: \<^verbatim>\<open>null\<close>, \<^verbatim>\<open>undefined\<close> and the empty
  string are no value; a string and a boolean are converted with \<^verbatim>\<open>Number\<close>; \<^verbatim>\<open>NaN\<close>, an
  object and an array are cast errors.\<close>

datatype cast = Cast_error | Cast_null | Cast_number jsnum

fun castNumber :: "(string \<Rightarrow> jsnum) \<Rightarrow> jsval \<Rightarrow> cast" where
  "castNumber to_number JUndefined = Cast_null"
| "castNumber to_number JNull = Cast_null"
| "castNumber to_number (JString s) =
     (if s = [] then Cast_null
      else if to_number s = NaN then Cast_error else Cast_number (to_number s))"
| "castNumber to_number (JBoolean b) = Cast_number (if b then js_int 1 else js_int 0)"
| "castNumber to_number (JNumber n) = (if n = NaN then Cast_error else Cast_number n)"
| "castNumber to_number JObject = Cast_error"

text \<open>Validation of one item: product, quantity and price are required, \<^verbatim>\<open>NaN\<close> is no
  Number for the schema, and the quantity is at least 1.\<close>

definition validate_item :: "item_in \<Rightarrow> order_item option" where
  "validate_item it =
     (case (in_productId it, in_quantity it, in_price it) of
        (Some p, Some q, Some pr) \<Rightarrow>
          if q \<noteq> NaN \<and> pr \<noteq> NaN \<and> js_ge q (js_int 1)
          then Some \<lparr>productId = p, quantity = q, price = pr\<rparr> else None
      | _ \<Rightarrow> None)"

fun validate_items :: "item_in list \<Rightarrow> order_item list option" where
  "validate_items [] = Some []"
| "validate_items (it # its) =
     (case validate_item it of
        None \<Rightarrow> None
      | Some i \<Rightarrow> (case validate_items its of None \<Rightarrow> None | Some is \<Rightarrow> Some (i # is)))"

text \<open>Validation of the address: every line but the second is a required string, and a
  required string is not empty.\<close>

definition validate_address :: "address_in option \<Rightarrow> address option" where
  "validate_address a0 =
     (case a0 of
        None \<Rightarrow> None
      | Some a \<Rightarrow>
          if truthy (in_fullName a) \<and> truthy (in_phone a) \<and> truthy (in_addressLine1 a)
             \<and> truthy (in_city a) \<and> truthy (in_state a) \<and> truthy (in_pincode a)
          then Some \<lparr>fullName = js_str (in_fullName a), phone = js_str (in_phone a),
                     addressLine1 = js_str (in_addressLine1 a),
                     addressLine2 = in_addressLine2 a, city = js_str (in_city a),
                     state = js_str (in_state a), pincode = js_str (in_pincode a)\<rparr>
          else None)"

text \<open>An optional enumerated path: absent, it takes the default; present, it has to be one of
  the enumeration.\<close>

definition enum_path :: "(string \<Rightarrow> 'a option) \<Rightarrow> 'a \<Rightarrow> string option \<Rightarrow> 'a option" where
  "enum_path parse dflt v = (case v of None \<Rightarrow> Some dflt | Some s \<Rightarrow> parse s)"

definition optional_enum_path :: "(string \<Rightarrow> 'a option) \<Rightarrow> string option \<Rightarrow> 'a option option" where
  "optional_enum_path parse v =
     (case v of None \<Rightarrow> Some None
      | Some s \<Rightarrow> (case parse s of None \<Rightarrow> None | Some x \<Rightarrow> Some (Some x)))"

text \<open>The document that \<^verbatim>\<open>Order.create\<close> builds from its argument, with the schema's
  defaults (\<^verbatim>\<open>shippingCharge\<close> 0, \<^verbatim>\<open>paymentStatus\<close> pending, \<^verbatim>\<open>status\<close> payment_pending), or
  \<open>None\<close> where a cast or a validator fails. The total is required: its cast has to give a
  Number. The schema has no validator that relates \<^verbatim>\<open>total\<close> to the items.\<close>

definition build_order :: "env \<Rightarrow> nat \<Rightarrow> order_data \<Rightarrow> order option" where
  "build_order e newId od =
     (case (od_userId od, validate_items (od_items od), validate_address (od_shippingAddress od),
            od_paymentMethod od, castNumber (string_to_number e) (od_total od)) of
        (Some uid, Some its, Some addr, Some pm0, Cast_number tot) \<Rightarrow>
          (case (payment_method_of pm0,
                 optional_enum_path payment_gateway_of (od_paymentGateway od),
                 enum_path payment_status_of Pending (od_paymentStatus od),
                 enum_path order_status_of Payment_pending (od_status od)) of
             (Some pm, Some gw, Some ps, Some st) \<Rightarrow>
               if od_shippingCharge od = Some NaN then None
               else
               Some \<lparr>order_id = newId, userId = uid, items = its, shippingAddress = addr,
                     paymentMethod = pm,
                     shippingCharge = (case od_shippingCharge od of None \<Rightarrow> js_int 0 | Some c \<Rightarrow> c),
                     order_total = tot,
                     merchantTransactionId = od_merchantTransactionId od,
                     gatewayTransactionId = od_gatewayTransactionId od,
                     paymentStatus = ps, paymentGateway = gw, status = st\<rparr>
           | _ \<Rightarrow> None)
      | _ \<Rightarrow> None)"

text \<open>\<^verbatim>\<open>Order.create\<close>: build and validate, run the pre-save hook on the new document,
  insert. \<open>newId\<close> is the id the driver generates.\<close>

definition Order_create :: "env \<Rightarrow> nat \<Rightarrow> order_data \<Rightarrow> world \<Rightarrow> (error + order) \<times> world" where
  "Order_create e newId od w =
     (case build_order e newId od of
        None \<Rightarrow> (Inl ValidationError, w)
      | Some doc0 \<Rightarrow>
          (let doc = pre_save True doc0
           in (Inr doc, emit [Insert (order_id doc)] (w\<lparr>orders := orders w @ [doc]\<rparr>))))"

subsection \<open>The order routes (routes/order.js)\<close>

text \<open>The body of a checkout request. The total is any JSON value (\<open>JUndefined\<close> when the
  body has none). \<open>body_paymentStatus\<close> and \<open>body_status\<close> are what a caller may send along;
  the routes below never read them.\<close>

record order_body =
  body_items :: "item_in list option"
  body_shippingAddress :: "address_in option"
  body_paymentMethod :: "string option"
  body_shippingCharge :: "jsnum option"
  body_total :: jsval
  body_paymentStatus :: "string option"
  body_status :: "string option"

text \<open>\<^verbatim>\<open>!items || items.length === 0\<close>.\<close>

fun no_items :: "item_in list option \<Rightarrow> bool" where
  "no_items None = True"
| "no_items (Some its) = (its = [])"

fun items_of :: "item_in list option \<Rightarrow> item_in list" where
  "items_of None = []"
| "items_of (Some its) = its"

text \<open>\<^verbatim>\<open>POST /\<close>: a cash-on-delivery order. After the insertion the order is loaded again and
  populated; a missing user makes \<^verbatim>\<open>order.userId.email\<close> throw, which the \<^verbatim>\<open>catch\<close> block
  passes on. The e-mails are sent without awaiting them.\<close>

definition create_cod_order ::
  "env \<Rightarrow> nat \<Rightarrow> nat \<Rightarrow> order_body \<Rightarrow> world \<Rightarrow> (error + order) \<times> world" where
  "create_cod_order e newId user_id body w =
     (if body_paymentMethod body \<noteq> Some ''cod'' then
        (Inl (AppError ''This endpoint is only for COD orders. Use /initiate-payment for online.'' 400), w)
      else
        (let orderData = \<lparr>od_userId = Some user_id, od_items = items_of (body_items body),
                          od_shippingAddress = body_shippingAddress body,
                          od_paymentMethod = Some ''cod'', od_paymentGateway = Some ''cod'',
                          od_shippingCharge = body_shippingCharge body,
                          od_total = body_total body,
                          od_merchantTransactionId = None, od_gatewayTransactionId = None,
                          od_paymentStatus = None, od_status = None\<rparr>
         in if body_shippingAddress body = None \<or> js_falsy (body_total body)
               \<or> no_items (body_items body) then
              (Inl (AppError ''Missing required order data for COD.'' 400), w)
            else
              (case Order_create e newId orderData w of
                 (Inl e, w1) \<Rightarrow> (Inl e, w1)
               | (Inr created, w1) \<Rightarrow>
                   (let w2 = emit [FindById (order_id created)] w1
                    in case findById (order_id created) (orders w2) of
                         None \<Rightarrow>
                           (Inl (AppError ''Failed to create or retrieve order after creation.'' 500), w2)
                       | Some ord \<Rightarrow>
                           (case users w2 (userId ord) of
                              None \<Rightarrow> (Inl TypeError, w2)
                            | Some email \<Rightarrow>
                                (Inr ord,
                                 emit [SendOrderConfirmation email (order_id ord),
                                       SendOrderNotificationToAdmin (order_id ord)] w2))))))"

text \<open>\<^verbatim>\<open>generateMerchantTransactionId\<close>; the UUID is a parameter.\<close>

definition generateMerchantTransactionId :: "string \<Rightarrow> string" where
  "generateMerchantTransactionId uuid = ''MT_'' @ filter (\<lambda>c. c \<noteq> CHR ''-'') uuid"

text \<open>What \<^verbatim>\<open>axios.request\<close> does: it returns a response, of which the handler reads
  \<^verbatim>\<open>data.success\<close>, \<^verbatim>\<open>data.message\<close> and the redirect URL, or it throws an Axios error
  (no connection, a timeout, a status outside 2xx), of which the handler reads
  \<^verbatim>\<open>response.data.message\<close>, \<^verbatim>\<open>message\<close> and \<^verbatim>\<open>response.status\<close>.\<close>

datatype gateway_answer =
    Gateway_response bool "string option" "string option"
  | Axios_error "string option" string "nat option"

text \<open>\<^verbatim>\<open>findByIdAndUpdate\<close>: the first document with the id is changed; no hook runs.\<close>

fun modify_by_id :: "nat \<Rightarrow> (order \<Rightarrow> order) \<Rightarrow> order list \<Rightarrow> order list" where
  "modify_by_id i f [] = []"
| "modify_by_id i f (x # xs) = (if order_id x = i then f x # xs else x # modify_by_id i f xs)"

definition findByIdAndUpdate :: "nat \<Rightarrow> (order \<Rightarrow> order) \<Rightarrow> world \<Rightarrow> world" where
  "findByIdAndUpdate i f w = emit [FindByIdAndUpdate i] (w\<lparr>orders := modify_by_id i f (orders w)\<rparr>)"

text \<open>\<^verbatim>\<open>POST /initiate-payment\<close>, first half: the checks and the creation of the order.\<close>

definition initiate_create ::
  "env \<Rightarrow> nat \<Rightarrow> string \<Rightarrow> nat \<Rightarrow> order_body \<Rightarrow> world \<Rightarrow> (error + order) \<times> world" where
  "initiate_create e newId uuid user_id body w =
     (if body_paymentMethod body \<noteq> Some ''online'' then
        (Inl (AppError ''This endpoint is only for online payments via PhonePe.'' 400), w)
      else
        (let userPhone = (case body_shippingAddress body of None \<Rightarrow> None | Some a \<Rightarrow> in_phone a)
         in if body_shippingAddress body = None \<or> js_falsy (body_total body)
               \<or> no_items (body_items body) \<or> \<not> truthy userPhone then
              (Inl (AppError ''Missing required data for online payment initiation.'' 400), w)
            else if \<not> truthy (PHONEPE_MERCHANT_ID e) \<or> \<not> truthy (PHONEPE_SALT_KEY e)
                    \<or> \<not> truthy (PHONEPE_SALT_INDEX e) \<or> \<not> truthy (PHONEPE_PAY_API_URL e)
                    \<or> \<not> truthy (PHONEPE_REDIRECT_URL e) \<or> \<not> truthy (PHONEPE_CALLBACK_URL e) then
              (Inl (AppError ''Payment gateway configuration error.'' 500), w)
            else
              (let merchantTransactionId' = generateMerchantTransactionId uuid;
                   orderData = \<lparr>od_userId = Some user_id, od_items = items_of (body_items body),
                                od_shippingAddress = body_shippingAddress body,
                                od_paymentMethod = Some ''online'',
                                od_paymentGateway = Some ''phonepe'',
                                od_shippingCharge = body_shippingCharge body,
                                od_total = body_total body,
                                od_merchantTransactionId = Some merchantTransactionId',
                                od_gatewayTransactionId = None,
                                od_paymentStatus = None, od_status = None\<rparr>
               in Order_create e newId orderData w)))"

text \<open>Second half: the gateway is called and its answer processed. A response without the
  success flag or without a redirect URL marks the order failed and throws an \<^verbatim>\<open>AppError\<close>;
  the \<^verbatim>\<open>catch\<close> block passes it on. An Axios error goes to the \<^verbatim>\<open>catch\<close> block directly.\<close>

definition initiate_gateway :: "order \<Rightarrow> gateway_answer \<Rightarrow> world \<Rightarrow> (error + string) \<times> world" where
  "initiate_gateway created answer w =
     (let w1 = emit [GatewayPay (js_str (merchantTransactionId created))] w
      in case answer of
           Gateway_response ok msg url \<Rightarrow>
             if ok \<and> truthy url then (Inr (js_str url), w1)
             else
               (let w2 = findByIdAndUpdate (order_id created)
                           (\<lambda>x. x\<lparr>status := Payment_failed, paymentStatus := Failed\<rparr>) w1
                in (Inl (AppError (if truthy msg then js_str msg
                                   else ''Failed to initiate payment with PhonePe.'') 500), w2))
         | Axios_error response_msg error_msg response_status \<Rightarrow>
             (Inl (AppError (''PhonePe API Error: ''
                               @ (if truthy response_msg then js_str response_msg else error_msg))
                            (case response_status of
                               None \<Rightarrow> 500
                             | Some c \<Rightarrow> if c = 0 then 500 else c)), w1))"

definition initiate_payment ::
  "env \<Rightarrow> nat \<Rightarrow> string \<Rightarrow> gateway_answer \<Rightarrow> nat \<Rightarrow> order_body \<Rightarrow> world
     \<Rightarrow> (error + string) \<times> world" where
  "initiate_payment e newId uuid answer user_id body w =
     (case initiate_create e newId uuid user_id body w of
        (Inl err, w1) \<Rightarrow> (Inl err, w1)
      | (Inr created, w1) \<Rightarrow> initiate_gateway created answer w1)"

text \<open>\<^verbatim>\<open>GET /status-by-mtid/:mtid\<close>. \<open>requester\<close> is the id of the authenticated user. The
  query selects three paths of the order; the reply is built from the selection.\<close>

record order_selection =
  sel_id :: nat
  sel_paymentStatus :: payment_status
  sel_status :: order_status

definition select_status_fields :: "order \<Rightarrow> order_selection" where
  "select_status_fields x =
     \<lparr>sel_id = order_id x, sel_paymentStatus = paymentStatus x, sel_status = status x\<rparr>"

record status_reply =
  reply_status :: string
  reply_orderId :: nat
  reply_paymentStatus :: payment_status

definition status_by_mtid :: "nat \<Rightarrow> string \<Rightarrow> world \<Rightarrow> (error + status_reply) \<times> world" where
  "status_by_mtid requester mtid w =
     (if mtid = [] then (Inl (AppError ''Merchant Transaction ID is required.'' 400), w)
      else
        (let w1 = emit [FindOne_mtid_user mtid requester] w
         in case map_option select_status_fields
                   (find (\<lambda>x. merchantTransactionId x = Some mtid \<and> userId x = requester)
                      (orders w1)) of
              None \<Rightarrow> (Inl (AppError ''Order not found for this transaction ID.'' 404), w1)
            | Some sel \<Rightarrow>
                (Inr \<lparr>reply_status = ''success'', reply_orderId = sel_id sel,
                      reply_paymentStatus = sel_paymentStatus sel\<rparr>, w1)))"

subsection \<open>The older order route (routes/orders.js)\<close>

text \<open>\<^verbatim>\<open>POST /\<close> of \<^verbatim>\<open>routes/orders.js\<close> hands the whole request body to \<^verbatim>\<open>Order.create\<close>,
  after the id of the authenticated user: \<^verbatim>\<open>Order.create({userId: req.user._id, ...req.body})\<close>.
  The body is given by the paths of the schema it sets; a \<^verbatim>\<open>userId\<close> of the body replaces the
  one of the user.\<close>

definition legacy_create_order ::
  "env \<Rightarrow> nat \<Rightarrow> nat \<Rightarrow> order_data \<Rightarrow> world \<Rightarrow> (error + order) \<times> world" where
  "legacy_create_order e newId user_id body w =
     Order_create e newId
       (body\<lparr>od_userId := (case od_userId body of None \<Rightarrow> Some user_id | Some u \<Rightarrow> Some u)\<rparr>) w"

subsection \<open>Notions used to state the properties of the callback\<close>

definition verified_callback ::
  "env \<Rightarrow> callback_request \<Rightarrow> decoded_response \<Rightarrow> callback_data \<Rightarrow> string \<Rightarrow> bool" where
  "verified_callback e req dr d m =
     (truthy (body_response req) \<and> truthy (header_x_verify req)
      \<and> verifyChecksum (sha256hex e) (js_str (body_response req)) (js_str (header_x_verify req))
            (js_str (PHONEPE_SALT_KEY e)) (js_str (PHONEPE_SALT_INDEX e))
      \<and> decode_payload e (js_str (body_response req)) = Some dr
      \<and> data dr = Some d
      \<and> data_merchantTransactionId d = Some m \<and> m \<noteq> [])"

definition success_combination :: "decoded_response \<Rightarrow> callback_data \<Rightarrow> bool" where
  "success_combination dr d =
     (success dr \<and> code dr = Some ''PAYMENT_SUCCESS''
      \<and> data_state d = Some ''COMPLETED'' \<and> data_responseCode d = Some ''SUCCESS'')"

text \<open>The order document as step 6 of the handler assigns it, before the save.\<close>

definition settled_doc :: "order \<Rightarrow> decoded_response \<Rightarrow> callback_data \<Rightarrow> order" where
  "settled_doc ord dr d =
     (if success_combination dr d then
        (if js_strict_neq (js_div (js_to_number (data_amount d)) (js_int 100)) (order_total ord)
         then ord\<lparr>status := Payment_issue, paymentStatus := Paid,
                  gatewayTransactionId := data_transactionId d\<rparr>
         else ord\<lparr>status := Processing, paymentStatus := Paid,
                  gatewayTransactionId := data_transactionId d\<rparr>)
      else ord\<lparr>status := Payment_failed, paymentStatus := Failed,
               gatewayTransactionId := data_transactionId d\<rparr>)"

definition is_confirmation :: "event \<Rightarrow> bool" where
  "is_confirmation ev = (case ev of SendOrderConfirmation _ _ \<Rightarrow> True | _ \<Rightarrow> False)"

definition is_admin_notification :: "event \<Rightarrow> bool" where
  "is_admin_notification ev = (case ev of SendOrderNotificationToAdmin _ \<Rightarrow> True | _ \<Rightarrow> False)"

definition is_notification :: "event \<Rightarrow> bool" where
  "is_notification ev = (is_confirmation ev \<or> is_admin_notification ev)"

definition correlated_orders_online :: "order list \<Rightarrow> bool" where
  "correlated_orders_online db =
     list_all (\<lambda>x. merchantTransactionId x = None \<or> paymentMethod x = Online) db"

text \<open>The equation the specification states for the total of an order, read on the exact
  values of the numbers of the order.\<close>

definition total_equation :: "order \<Rightarrow> bool" where
  "total_equation x =
     (js_value (order_total x)
        = sum_list (map (\<lambda>i. js_value (quantity i) * js_value (price i)) (items x))
          + js_value (shippingCharge x))"

definition is_save :: "event \<Rightarrow> bool" where
  "is_save ev = (case ev of Save _ \<Rightarrow> True | _ \<Rightarrow> False)"

subsection \<open>Example data\<close>

text \<open>Concrete requests and stores on which the handlers are evaluated below.\<close>

definition example_users :: "nat \<Rightarrow> string option" where
  "example_users u = (if u = 7 then Some ''buyer@example.org'' else None)"

definition example_address :: address where
  "example_address =
     \<lparr>fullName = ''A Farmer'', phone = ''9876543210'', addressLine1 = ''1 Farm Road'',
      addressLine2 = None, city = ''Pune'', state = ''MH'', pincode = ''411001''\<rparr>"

definition example_address_in :: address_in where
  "example_address_in =
     \<lparr>in_fullName = Some ''A Farmer'', in_phone = Some ''9876543210'',
      in_addressLine1 = Some ''1 Farm Road'', in_addressLine2 = None, in_city = Some ''Pune'',
      in_state = Some ''MH'', in_pincode = Some ''411001''\<rparr>"

text \<open>A checkout body with two units at 250 and no shipping charge, for a payment method and
  a total of the caller's choice; the caller also sends a payment status and a status.\<close>

definition example_body :: "string \<Rightarrow> int \<Rightarrow> order_body" where
  "example_body method tot =
     \<lparr>body_items = Some [\<lparr>in_productId = Some 3, in_quantity = Some (js_int 2),
                          in_price = Some (js_int 250)\<rparr>],
      body_shippingAddress = Some example_address_in,
      body_paymentMethod = Some method,
      body_shippingCharge = Some (js_int 0),
      body_total = JNumber (js_int tot),
      body_paymentStatus = Some ''paid'',
      body_status = Some ''delivered''\<rparr>"

text \<open>An online order of 500 that waits for its callback, and the same order settled.\<close>

definition example_order :: order where
  "example_order =
     \<lparr>order_id = 1, userId = 7,
      items = [\<lparr>productId = 3, quantity = js_int 2, price = js_int 250\<rparr>],
      shippingAddress = example_address,
      paymentMethod = Online, shippingCharge = js_int 0, order_total = js_int 500,
      merchantTransactionId = Some ''MT_1'', gatewayTransactionId = None,
      paymentStatus = Pending, paymentGateway = Some Phonepe, status = Payment_pending\<rparr>"

definition empty_world :: world where
  "empty_world = \<lparr>orders = [], users = example_users, events = []\<rparr>"

definition example_world :: world where
  "example_world = \<lparr>orders = [example_order], users = example_users, events = []\<rparr>"

text \<open>The same store with an order of 499.99: its total is the double nearest to 499.99.\<close>

definition cents_world :: world where
  "cents_world =
     \<lparr>orders = [example_order\<lparr>order_total := js_number (49999 / 100)\<rparr>],
      users = example_users, events = []\<rparr>"

definition paid_world :: world where
  "paid_world =
     \<lparr>orders = [example_order\<lparr>paymentStatus := Paid, status := Processing,
                               gatewayTransactionId := Some ''T1''\<rparr>],
      users = example_users, events = []\<rparr>"

text \<open>Decoded callbacks for the merchant transaction id \<open>MT_1\<close>: a success of 50000 minor
  units, a success of 40000, a success of 49999, a success without amount, and a failure.
  The example decoder reads them from the payloads \<open>paid\<close>, \<open>short\<close>, \<open>cents\<close>, \<open>bare\<close> and
  \<open>fail\<close>.\<close>

definition example_data :: "int option \<Rightarrow> string \<Rightarrow> string \<Rightarrow> string \<Rightarrow> callback_data" where
  "example_data amt txn st rc =
     \<lparr>data_merchantTransactionId = Some ''MT_1'', data_transactionId = Some txn,
      data_state = Some st, data_responseCode = Some rc, data_amount = map_option js_int amt\<rparr>"

definition success_response :: "int option \<Rightarrow> decoded_response" where
  "success_response amt =
     \<lparr>success = True, code = Some ''PAYMENT_SUCCESS'', message = Some ''ok'',
      data = Some (example_data amt ''T1'' ''COMPLETED'' ''SUCCESS'')\<rparr>"

definition failure_response :: decoded_response where
  "failure_response =
     \<lparr>success = False, code = Some ''PAYMENT_ERROR'', message = Some ''declined'',
      data = Some (example_data (Some 50000) ''T2'' ''FAILED'' ''PAYMENT_ERROR'')\<rparr>"

definition example_decode :: "string \<Rightarrow> decoded_response option" where
  "example_decode s =
     (if s = ''paid'' then Some (success_response (Some 50000))
      else if s = ''short'' then Some (success_response (Some 40000))
      else if s = ''cents'' then Some (success_response (Some 49999))
      else if s = ''bare'' then Some (success_response None)
      else if s = ''fail'' then Some failure_response
      else None)"

definition example_env :: env where
  "example_env =
     \<lparr>PHONEPE_MERCHANT_ID = Some ''M1'', PHONEPE_SALT_KEY = Some ''salt'',
      PHONEPE_SALT_INDEX = Some ''1'', PHONEPE_PAY_API_URL = Some ''https://gateway/pay'',
      PHONEPE_REDIRECT_URL = Some ''https://shop/return'',
      PHONEPE_CALLBACK_URL = Some ''https://shop/callback'',
      sha256hex = (\<lambda>s. replicate 64 (CHR ''0'')),
      decode_payload = example_decode,
      string_to_number = (\<lambda>s. if s = ''0'' then js_int 0 else NaN)\<rparr>"

text \<open>A request that passes \<^verbatim>\<open>verifyChecksum\<close>, and one signed by the callback-mode
  formula.\<close>

definition accepted_request :: "string \<Rightarrow> callback_request" where
  "accepted_request p = \<lparr>body_response = Some p, header_x_verify = Some expectedChecksum_literal\<rparr>"

definition signed_request :: "string \<Rightarrow> callback_request" where
  "signed_request p =
     \<lparr>body_response = Some p,
      header_x_verify = Some (callbackChecksum_spec (sha256hex example_env) p ''salt'' ''1'')\<rparr>"

text \<open>The documents that the two creation routes store for \<open>example_body\<close> with the new
  id 2: a cash order whose caller gave the total 5, and an online order of 500 with the
  merchant transaction id made from the UUID \<open>a-b\<close>.\<close>

definition mispriced_order :: order where
  "mispriced_order =
     \<lparr>order_id = 2, userId = 7,
      items = [\<lparr>productId = 3, quantity = js_int 2, price = js_int 250\<rparr>],
      shippingAddress = example_address,
      paymentMethod = Cod, shippingCharge = js_int 0, order_total = js_int 5,
      merchantTransactionId = None, gatewayTransactionId = None,
      paymentStatus = Not_applicable, paymentGateway = Some Gateway_cod, status = Processing\<rparr>"

definition new_online_order :: order where
  "new_online_order =
     \<lparr>order_id = 2, userId = 7,
      items = [\<lparr>productId = 3, quantity = js_int 2, price = js_int 250\<rparr>],
      shippingAddress = example_address,
      paymentMethod = Online, shippingCharge = js_int 0, order_total = js_int 500,
      merchantTransactionId = Some ''MT_ab'', gatewayTransactionId = None,
      paymentStatus = Pending, paymentGateway = Some Phonepe, status = Payment_pending\<rparr>"

text \<open>The object a caller of \<^verbatim>\<open>Order.create\<close> would pass to ask for a paid, delivered
  order.\<close>

definition forged_order_data :: "string \<Rightarrow> order_data" where
  "forged_order_data method =
     \<lparr>od_userId = Some 7,
      od_items = [\<lparr>in_productId = Some 3, in_quantity = Some (js_int 2),
                    in_price = Some (js_int 250)\<rparr>],
      od_shippingAddress = Some example_address_in,
      od_paymentMethod = Some method, od_paymentGateway = None,
      od_shippingCharge = None, od_total = JNumber (js_int 500),
      od_merchantTransactionId = None, od_gatewayTransactionId = None,
      od_paymentStatus = Some ''paid'', od_status = Some ''delivered''\<rparr>"

text \<open>A body for \<^verbatim>\<open>POST /\<close> of \<^verbatim>\<open>routes/orders.js\<close> that asks for a cash order and sets a
  merchant transaction id, the document that is stored for it with the new id 1, and the
  store that holds this document.\<close>

definition correlated_cod_body :: order_data where
  "correlated_cod_body =
     \<lparr>od_userId = None,
      od_items = [\<lparr>in_productId = Some 3, in_quantity = Some (js_int 2),
                    in_price = Some (js_int 250)\<rparr>],
      od_shippingAddress = Some example_address_in,
      od_paymentMethod = Some ''cod'', od_paymentGateway = None,
      od_shippingCharge = None, od_total = JNumber (js_int 500),
      od_merchantTransactionId = Some ''MT_1'', od_gatewayTransactionId = None,
      od_paymentStatus = None, od_status = None\<rparr>"

definition correlated_cod_order :: order where
  "correlated_cod_order =
     \<lparr>order_id = 1, userId = 7,
      items = [\<lparr>productId = 3, quantity = js_int 2, price = js_int 250\<rparr>],
      shippingAddress = example_address,
      paymentMethod = Cod, shippingCharge = js_int 0, order_total = js_int 500,
      merchantTransactionId = Some ''MT_1'', gatewayTransactionId = None,
      paymentStatus = Not_applicable, paymentGateway = None, status = Processing\<rparr>"

definition correlated_cod_world :: world where
  "correlated_cod_world =
     \<lparr>orders = [correlated_cod_order], users = example_users, events = [Insert 1]\<rparr>"
section \<open>Properties\<close>

subsection \<open>Rounding to a double\<close>

lemma pow2_pos [simp]: "0 < pow2 e"
  by (simp add: pow2_def)

lemma pow2_nat: "0 \<le> e \<Longrightarrow> pow2 e = 2 ^ nat e"
  by (simp add: pow2_def)

lemma pow2_neg: "e < 0 \<Longrightarrow> pow2 e = 1 / 2 ^ nat (- e)"
  by (simp add: pow2_def)

lemma floorlog2_eqI:
  fixes n :: nat
  assumes "2 ^ w \<le> n" "n < 2 ^ Suc w"
  shows "floorlog 2 n = Suc w"
proof -
  have "Suc w \<le> floorlog 2 n"
    using assms(1) by (intro floorlog_ge_SucI) auto
  moreover have "floorlog 2 n \<le> Suc w"
    using assms(2) by (intro floorlog_leI) auto
  ultimately show ?thesis by simp
qed

text \<open>\<open>floor_log2\<close> is the exponent of the power of two below its argument.\<close>

lemma floor_log2_eqI:
  assumes lo: "pow2 k \<le> r" and hi: "r < pow2 (k + 1)"
  shows "floor_log2 r = k"
proof (cases "1 \<le> r")
  case True
  have k: "0 \<le> k"
  proof (rule ccontr)
    assume "\<not> 0 \<le> k"
    then have "k + 1 \<le> 0" by simp
    then have "pow2 (k + 1) \<le> 1"
      by (cases "k + 1 = 0") (simp_all add: pow2_def)
    with hi True show False by simp
  qed
  define n where "n = nat \<lfloor>r\<rfloor>"
  have r0: "0 \<le> \<lfloor>r\<rfloor>" using True by simp
  have "(2::rat) ^ nat k \<le> r" using lo k by (simp add: pow2_nat)
  then have "of_int (2 ^ nat k) \<le> r" by simp
  then have "2 ^ nat k \<le> \<lfloor>r\<rfloor>" by (simp only: le_floor_iff)
  then have a: "2 ^ nat k \<le> n"
    unfolding n_def using r0 by (simp add: le_nat_iff)
  have "r < 2 ^ nat (k + 1)" using hi k by (simp add: pow2_nat)
  then have "r < of_int (2 ^ nat (k + 1))" by simp
  then have "\<lfloor>r\<rfloor> < 2 ^ nat (k + 1)" by (simp only: floor_less_iff)
  then have b: "n < 2 ^ Suc (nat k)"
    unfolding n_def using r0 k by (simp add: nat_add_distrib nat_less_iff)
  from floorlog2_eqI [OF a b] show ?thesis
    using True k by (simp add: floor_log2_def n_def)
next
  case False
  then have r1: "r < 1" by simp
  have rpos: "0 < r" using lo pow2_pos [of k] by (rule less_le_trans [rotated])
  have k: "k < 0"
  proof (rule ccontr)
    assume "\<not> k < 0"
    then have "1 \<le> pow2 k" by (simp add: pow2_def)
    with lo r1 show False by simp
  qed
  define j where "j = nat (- k) - 1"
  have jk: "k = - int (Suc j)" using k by (simp add: j_def)
  define c where "c = \<lceil>1 / r\<rceil>"
  have nk: "nat (- k) = Suc j" using jk by simp
  have lo': "1 / 2 ^ Suc j \<le> r" using lo k by (simp add: pow2_neg nk)
  have hi': "r < 1 / 2 ^ j"
  proof (cases "j = 0")
    case True with r1 show ?thesis by simp
  next
    case False
    then have "k + 1 < 0" using jk by simp
    moreover have "nat (- (k + 1)) = j" using jk by simp
    ultimately show ?thesis using hi by (simp add: pow2_def)
  qed
  have "1 / r \<le> 2 ^ Suc j"
    using lo' rpos by (simp add: field_simps)
  then have "1 / r \<le> of_int (2 ^ Suc j)" by simp
  then have c_hi: "c \<le> 2 ^ Suc j" unfolding c_def by (simp only: ceiling_le_iff)
  have "2 ^ j < 1 / r"
    using hi' rpos by (simp add: field_simps)
  then have "of_int (2 ^ j) < 1 / r" by simp
  then have c_lo: "2 ^ j < c" unfolding c_def by (simp only: less_ceiling_iff)
  have a: "2 ^ j \<le> nat (c - 1)"
    using c_lo by (simp add: le_nat_iff)
  have b: "nat (c - 1) < 2 ^ Suc j"
    using c_hi c_lo by (simp add: nat_less_iff)
  from floorlog2_eqI [OF a b] show ?thesis
    using False jk by (simp add: floor_log2_def c_def)
qed

text \<open>Rounding, once the exponent is known.\<close>

lemma round_mag_bracket:
  assumes "pow2 k \<le> a" "a < pow2 (k + 1)"
  shows "round_mag a =
           of_int (round_half_even (a / pow2 (max (k - 52) (- 1074)))) * pow2 (max (k - 52) (- 1074))"
  by (simp add: round_mag_def floor_log2_eqI [OF assms] Let_def)

lemma round_half_even_of_int [simp]: "round_half_even (of_int m) = m"
  by (simp add: round_half_even_def)

lemma round_mag_exact:
  assumes "pow2 k \<le> a" "a < pow2 (k + 1)"
    and "a = of_int m * pow2 (max (k - 52) (- 1074))"
  shows "round_mag a = a"
proof -
  define p where "p = pow2 (max (k - 52) (- 1074))"
  have p: "p \<noteq> 0" by (simp add: p_def pow2_def)
  have a: "a = of_int m * p" using assms(3) by (simp add: p_def)
  have "a / p = of_int m" using p by (simp add: a)
  then have "of_int (round_half_even (a / p)) * p = a"
    by (simp add: a)
  then show ?thesis
    unfolding round_mag_bracket [OF assms(1,2)] p_def .
qed

lemma floor_rat_numeral_div [simp]:
  "\<lfloor>(numeral a :: rat) / numeral b\<rfloor> = numeral a div numeral b"
  using floor_divide_of_int_eq [of "numeral a" "numeral b", where ?'a = rat] by simp

text \<open>A positive integer below \<open>2 ^ 53\<close> is a double and rounds to itself.\<close>

lemma int_bracket:
  fixes q :: int
  assumes "0 < q" "q < 2 ^ 53"
  obtains k :: nat where "2 ^ k \<le> q" "q < 2 ^ Suc k" "k \<le> 52"
proof -
  define x where "x = nat q"
  have x: "0 < x" "int x = q" using assms by (simp_all add: x_def)
  define k where "k = floorlog 2 x - 1"
  have fl: "floorlog 2 x \<noteq> 0"
    using x by (simp add: floorlog_eq_zero_iff)
  then have sk: "Suc k = floorlog 2 x" by (simp add: k_def)
  have b1: "2 ^ (floorlog 2 x - 1) \<le> x" and b2: "x < 2 ^ floorlog 2 x"
    using floorlog_bounds [of x 2] x by simp_all
  have b: "2 ^ k \<le> x" "x < 2 ^ Suc k"
  proof -
    show "2 ^ k \<le> x" using b1 by (simp only: k_def)
    show "x < 2 ^ Suc k" using b2 by (simp only: sk)
  qed
  have lo: "2 ^ k \<le> q"
    using b(1) x(2) by (metis of_nat_le_iff of_nat_numeral of_nat_power)
  have hi: "q < 2 ^ Suc k"
    using b(2) x(2) by (metis of_nat_less_iff of_nat_numeral of_nat_power)
  have "(2::int) ^ k < 2 ^ 53" using lo assms(2) by simp
  then have "k < 53" by (simp only: power_strict_increasing_iff [of "2::int"] one_less_numeral_iff semiring_norm)
  with lo hi that show thesis by simp
qed

lemma round_mag_int:
  assumes "0 < q" "q < 2 ^ 53"
  shows "round_mag (of_int q) = of_int q"
proof -
  from int_bracket [OF assms] obtain k :: nat where
    k: "2 ^ k \<le> q" "q < 2 ^ Suc k" "k \<le> 52" by blast
  have lo: "pow2 (int k) \<le> of_int q"
    using k(1) by (simp add: pow2_def)
  have hi: "(of_int q :: rat) < pow2 (int k + 1)"
  proof -
    have "(of_int q :: rat) < of_int (2 ^ Suc k)" using k(2) by (simp only: of_int_less_iff)
    then show ?thesis by (simp add: pow2_def nat_add_distrib)
  qed
  have e: "max (int k - 52) (- 1074) = - int (52 - k)"
    using k(3) by simp
  have n: "nat (int (52 - k)) = 52 - k" by simp
  have "(of_int q :: rat) = of_int (q * 2 ^ (52 - k)) * pow2 (- int (52 - k))"
  proof (cases "52 - k = 0")
    case True
    then show ?thesis by (simp add: pow2_def)
  next
    case False
    then have "- int (52 - k) < 0" by simp
    then show ?thesis by (simp only: pow2_neg minus_minus n) simp
  qed
  then have "(of_int q :: rat) = of_int (q * 2 ^ (52 - k)) * pow2 (max (int k - 52) (- 1074))"
    by (simp only: e)
  from round_mag_exact [OF lo hi this] show ?thesis .
qed

lemma is_double_int: "\<bar>n\<bar> < 2 ^ 53 \<Longrightarrow> is_double (of_int n)"
  unfolding is_double_def
  by (intro exI [of _ n] exI [of _ 0]) (simp add: pow2_def)

lemma double_value_int [simp]:
  "\<bar>n\<bar> < 2 ^ 53 \<Longrightarrow> double_value (double_of (of_int n)) = of_int n"
  by (simp add: double_of_inverse is_double_int)

lemma double_value_numeral [simp]:
  "(numeral v :: int) < 2 ^ 53 \<Longrightarrow> double_value (double_of (numeral v)) = numeral v"
  using double_value_int [of "numeral v"] by simp

lemma double_value_zero [simp]: "double_value (double_of 0) = 0"
  using double_value_int [of 0] by simp

lemma js_value_js_int [simp]: "\<bar>n\<bar> < 2 ^ 53 \<Longrightarrow> js_value (js_int n) = of_int n"
  by (simp add: js_int_def)

lemma js_int_eq_iff: "\<bar>m\<bar> < 2 ^ 53 \<Longrightarrow> \<bar>n\<bar> < 2 ^ 53 \<Longrightarrow> (js_int m = js_int n) = (m = n)"
  by (simp add: js_int_def double_of_inject is_double_int)

lemma js_int_not_NaN [simp]: "js_int n \<noteq> NaN"
  by (simp add: js_int_def)

lemma js_is_zero_js_int [simp]: "\<bar>n\<bar> < 2 ^ 53 \<Longrightarrow> js_is_zero (js_int n) = (n = 0)"
  by (simp add: js_int_def)

lemma js_negative_js_int [simp]: "\<bar>n\<bar> < 2 ^ 53 \<Longrightarrow> js_negative (js_int n) = (n < 0)"
  by (simp add: js_int_def)

lemma js_int_distinct [simp]:
  "js_int n \<noteq> PosInf" "js_int n \<noteq> NegInf" "js_int n \<noteq> NegZero"
  "PosInf \<noteq> js_int n" "NegInf \<noteq> js_int n" "NegZero \<noteq> js_int n" "NaN \<noteq> js_int n"
  by (simp_all add: js_int_def)

lemma js_ge_js_int [simp]:
  "\<bar>a\<bar> < 2 ^ 53 \<Longrightarrow> \<bar>b\<bar> < 2 ^ 53 \<Longrightarrow> js_ge (js_int a) (js_int b) = (b \<le> a)"
  by (simp add: js_ge_def)

lemma js_is_inf_js_int [simp]: "\<not> js_is_inf (js_int n)"
  by (simp add: js_int_def)

text \<open>The quotient of two positive integer Numbers is the double nearest to the exact
  quotient; when the exact quotient is an integer below \<open>2 ^ 53\<close>, it is that integer.\<close>

lemma js_div_js_int:
  assumes "0 < a" "a < 2 ^ 53" "0 < b" "b < 2 ^ 53"
  shows "js_div (js_int a) (js_int b) = round_signed False (of_int a / of_int b)"
  using assms by (simp add: js_div_def Let_def)

lemma round_signed_int:
  assumes "0 < q" "q < 2 ^ 53"
  shows "round_signed False (of_int q) = js_int q"
proof -
  have "(of_int q :: rat) < of_int (2 ^ 1024)"
    using assms(2) by (simp only: of_int_less_iff) simp
  then have "\<not> pow2 1024 \<le> of_int q" by (simp add: pow2_def)
  then show ?thesis
    using assms by (simp add: round_signed_def round_mag_int Let_def js_int_def)
qed

lemma js_div_js_int_exact:
  assumes "0 < q" "q < 2 ^ 53" "0 < b" "b < 2 ^ 53" "q * b < 2 ^ 53"
  shows "js_div (js_int (q * b)) (js_int b) = js_int q"
proof -
  have "0 < q * b" using assms by simp
  from js_div_js_int [OF this assms(5) assms(3) assms(4)]
  have "js_div (js_int (q * b)) (js_int b) = round_signed False (of_int q)"
    using assms(3) by simp
  then show ?thesis by (simp add: round_signed_int [OF assms(1,2)])
qed

text \<open>Examples: 50000 / 100 is 500; 49999 / 100 is the double nearest to 499.99, which is
  not 499.99; the literal 50000.000000000001 denotes the Number 50000; 0.1 + 0.2 is not
  needed by the handlers, but 0.1 is not a double.\<close>

lemma js_div_examples:
  "js_div (js_int 50000) (js_int 100) = js_int 500"
  "js_div (js_int 40000) (js_int 100) = js_int 400"
  "js_div (js_int 49999) (js_int 100) = js_number (49999 / 100)"
proof -
  show "js_div (js_int 50000) (js_int 100) = js_int 500"
    using js_div_js_int_exact [of 500 100] by simp
  show "js_div (js_int 40000) (js_int 100) = js_int 400"
    using js_div_js_int_exact [of 400 100] by simp
  show "js_div (js_int 49999) (js_int 100) = js_number (49999 / 100)"
    using js_div_js_int [of 49999 100] by (simp add: js_number_def)
qed

lemma round_mag_examples:
  "round_mag (49999 / 100) = 2198979275086889 / 4398046511104"
  "round_mag (50000000000000001 / 1000000000000) = 50000"
  "round_mag (1 / 10) = 3602879701896397 / 36028797018963968"
  by (simp_all add: round_mag_bracket [where k = 8] round_mag_bracket [where k = 15]
        round_mag_bracket [where k = "- 4"] pow2_def round_half_even_def Let_def)

lemma js_number_literal_example: "js_number (50000000000000001 / 1000000000000) = js_int 50000"
  by (simp add: js_number_def round_signed_def round_mag_examples Let_def pow2_def js_int_def)

lemma js_number_not_NaN [simp]: "js_number r \<noteq> NaN"
  by (simp add: js_number_def round_signed_def Let_def)

lemma js_number_cents:
  "js_number (49999 / 100) = Finite (double_of (2198979275086889 / 4398046511104))"
  by (simp add: js_number_def round_signed_def round_mag_examples Let_def pow2_def)

lemmas number_evals = js_div_examples js_strict_neq_def js_int_eq_iff

subsection \<open>Example data, unfolded\<close>

lemmas example_defs = example_users_def example_address_def example_address_in_def example_body_def
  example_order_def empty_world_def example_world_def paid_world_def example_data_def
  success_response_def failure_response_def example_decode_def example_env_def
  accepted_request_def signed_request_def
  mispriced_order_def new_online_order_def forged_order_data_def
  cents_world_def correlated_cod_body_def correlated_cod_order_def correlated_cod_world_def


lemma expectedChecksum_literal_length: "length expectedChecksum_literal = 55"
  by (simp add: expectedChecksum_literal_def)

subsection \<open>The checksum\<close>

text \<open>
  C1. The claim: \<^verbatim>\<open>verifyChecksum(payload, c, saltKey, saltIndex)\<close> is true exactly when \<open>c\<close>
  is the callback-mode checksum of the payload, so that changing one character of the payload
  or of the checksum makes it false.

  The code computes the digest and then leaves it unused: the expected checksum is a
  template literal without substitution. What the function returns is whether the received
  checksum is that fixed text, whatever the payload, the salt key and the salt index are.
\<close>

theorem verifyChecksum_compares_fixed_literal:
  "verifyChecksum h payloadBase64 receivedChecksum saltKey saltIndex
     = (receivedChecksum = expectedChecksum_literal)"
  by (auto simp: verifyChecksum_def Let_def)

text \<open>A checksum made by the callback-mode formula from a 64-character digest is rejected,
  and the fixed text is accepted for two payloads that differ in one character.\<close>

lemma verifyChecksum_rejects_signed:
  assumes "length (h (payloadBase64 @ saltKey)) = 64"
  shows "\<not> verifyChecksum h payloadBase64
             (callbackChecksum_spec h payloadBase64 saltKey saltIndex) saltKey saltIndex"
proof
  assume "verifyChecksum h payloadBase64
             (callbackChecksum_spec h payloadBase64 saltKey saltIndex) saltKey saltIndex"
  then have "callbackChecksum_spec h payloadBase64 saltKey saltIndex = expectedChecksum_literal"
    by (simp add: verifyChecksum_def Let_def)
  then have "length (callbackChecksum_spec h payloadBase64 saltKey saltIndex) = 55"
    by (simp add: expectedChecksum_literal_length)
  with assms show False
    by (simp add: callbackChecksum_spec_def)
qed

lemma verifyChecksum_payload_mutation:
  "verifyChecksum h ''e30='' expectedChecksum_literal ''salt'' ''1''
   \<and> verifyChecksum h ''e30x'' expectedChecksum_literal ''salt'' ''1''"
  by (simp add: verifyChecksum_def Let_def)

subsection \<open>Rejection of unverified callbacks\<close>

text \<open>
  C4. A callback whose signature header is missing (absent or empty) or whose signature fails
  verification is answered with status 400, and the state is returned as it was: the orders
  are unchanged and the trace has no new event, so no order was read or written and no
  notification was sent. The payload plays no part in this.
\<close>

theorem callback_rejected_without_valid_signature:
  assumes "\<not> truthy (header_x_verify req)
           \<or> \<not> verifyChecksum (sha256hex e) (js_str (body_response req))
                  (js_str (header_x_verify req))
                  (js_str (PHONEPE_SALT_KEY e)) (js_str (PHONEPE_SALT_INDEX e))"
  shows "fst (fst (phonepe_callback e req w)) = 400 \<and> snd (phonepe_callback e req w) = w"
  using assms
  by (auto simp: phonepe_callback_def callback_lookup_def split: option.splits)


text \<open>The property at a request signed with the callback-mode formula, which the handler
  does not accept.\<close>

theorem callback_rejected_without_valid_signature_witness:
  "\<not> verifyChecksum (sha256hex example_env) (js_str (body_response (signed_request ''paid'')))
        (js_str (header_x_verify (signed_request ''paid'')))
        (js_str (PHONEPE_SALT_KEY example_env)) (js_str (PHONEPE_SALT_INDEX example_env))
   \<and> fst (fst (phonepe_callback example_env (signed_request ''paid'') example_world)) = 400
   \<and> snd (phonepe_callback example_env (signed_request ''paid'') example_world) = example_world"
proof -
  have h: "\<not> verifyChecksum (sha256hex example_env) (js_str (body_response (signed_request ''paid'')))
        (js_str (header_x_verify (signed_request ''paid'')))
        (js_str (PHONEPE_SALT_KEY example_env)) (js_str (PHONEPE_SALT_INDEX example_env))"
    by (simp add: verifyChecksum_def expectedChecksum_literal_def callbackChecksum_spec_def
          signed_request_def example_env_def)
  from callback_rejected_without_valid_signature [of "signed_request ''paid''" example_env example_world]
  show ?thesis using h by blast
qed
lemma find_Some_mem: "find P xs = Some x \<Longrightarrow> x \<in> set xs \<and> P x"
  by (induction xs) (auto split: if_splits)

lemma findById_update_by_id:
  "x \<in> set db \<Longrightarrow> order_id x = order_id d \<Longrightarrow> findById (order_id d) (update_by_id d db) = Some d"
  by (induction db) (auto simp: findById_def)

lemma findOne_mtid_update_by_id:
  "findOne_mtid m db = Some x \<Longrightarrow> order_id d = order_id x \<Longrightarrow> merchantTransactionId d = Some m
     \<Longrightarrow> findOne_mtid m (update_by_id d db) = Some d"
  by (induction db) (auto simp: findOne_mtid_def split: if_splits)



lemma callback_lookup_verified:
  assumes "verified_callback e req dr d m"
  shows "callback_lookup e req w =
           (case findOne_mtid m (orders w) of
              None \<Rightarrow> (Inl (200, ''Order not found, acknowledged.''), emit [FindOne_mtid m] w)
            | Some ord \<Rightarrow>
                if paymentStatus ord = Paid \<or> paymentStatus ord = Failed
                then (Inl (200, ''Already processed.''), emit [FindOne_mtid m] w)
                else (Inr (ord, dr, d), emit [FindOne_mtid m] w))"
  using assms
  by (cases "body_response req"; cases "header_x_verify req")
     (auto simp: verified_callback_def callback_lookup_def Let_def emit_def split: option.splits)




lemma callback_lookup_Inr_verified:
  assumes "callback_lookup e req w = (Inr (ord, dr, d), w1)"
  shows "verified_callback e req dr d (js_str (data_merchantTransactionId d))
         \<and> findOne_mtid (js_str (data_merchantTransactionId d)) (orders w) = Some ord
         \<and> paymentStatus ord \<noteq> Paid \<and> paymentStatus ord \<noteq> Failed
         \<and> w1 = emit [FindOne_mtid (js_str (data_merchantTransactionId d))] w"
  using assms
  by (cases "data_merchantTransactionId d")
     (auto simp: verified_callback_def callback_lookup_def Let_def emit_def
           split: option.splits if_splits)




lemma callback_lookup_orders: "orders (snd (callback_lookup e req w)) = orders w"
  by (auto simp: callback_lookup_def Let_def emit_def split: option.splits)




lemma callback_lookup_users: "users (snd (callback_lookup e req w)) = users w"
  by (auto simp: callback_lookup_def Let_def emit_def split: option.splits)




lemma callback_lookup_notifications:
  "filter is_notification (events (snd (callback_lookup e req w))) = filter is_notification (events w)"
  by (auto simp: callback_lookup_def Let_def emit_def is_notification_def is_confirmation_def
         is_admin_notification_def split: option.splits)




lemma callback_lookup_fst_cong:
  "orders v = orders w \<Longrightarrow> fst (callback_lookup e req v) = fst (callback_lookup e req w)"
  by (simp add: callback_lookup_def Let_def emit_def split: option.splits)

lemma callback_lookup_Inl_same:
  "callback_lookup e req w = (Inl r, w1) \<Longrightarrow> orders v = orders w
     \<Longrightarrow> fst (callback_lookup e req v) = Inl r"
  using callback_lookup_fst_cong [of v w e req] by simp



lemma phonepe_callback_open_order:
  assumes "verified_callback e req dr d m" "findOne_mtid m (orders w) = Some ord"
    "paymentStatus ord \<noteq> Paid" "paymentStatus ord \<noteq> Failed"
  shows "phonepe_callback e req w = callback_apply ord dr d (emit [FindOne_mtid m] w)"
  using assms by (simp add: phonepe_callback_def callback_lookup_verified)

lemma phonepe_callback_settled_order:
  assumes "verified_callback e req dr d m" "findOne_mtid m (orders w) = Some ord"
    "paymentStatus ord = Paid \<or> paymentStatus ord = Failed"
  shows "phonepe_callback e req w = ((200, ''Already processed.''), emit [FindOne_mtid m] w)"
  using assms by (auto simp add: phonepe_callback_def callback_lookup_verified)

lemma send_emails_orders: "orders (send_emails x w) = orders w"
  by (simp add: send_emails_def emit_def Let_def split: option.splits)

lemma pre_save_online: "paymentMethod x = Online \<Longrightarrow> pre_save False x = x"
  by (simp add: pre_save_def)

lemma callback_apply_reply: "fst (callback_apply ord dr d w) = (200, ''Callback processed successfully.'')"
  by (simp add: callback_apply_def Let_def)

text \<open>What the remaining steps store: the document of step 6 after the pre-save hook, which
  leaves an online order as it is.\<close>

lemma callback_apply_orders_hook:
  "orders (snd (callback_apply ord dr d w))
     = update_by_id (pre_save False (settled_doc ord dr d)) (orders w)"
  by (simp add: callback_apply_def settled_doc_def Let_def success_combination_def save_def
        emit_def send_emails_orders)

lemma settled_doc_paymentMethod [simp]: "paymentMethod (settled_doc ord dr d) = paymentMethod ord"
  by (simp add: settled_doc_def)

lemma callback_apply_orders:
  assumes "paymentMethod ord = Online"
  shows "orders (snd (callback_apply ord dr d w)) = update_by_id (settled_doc ord dr d) (orders w)"
  using assms by (simp add: callback_apply_orders_hook pre_save_online)



lemma callback_lookup_confirmations:
  "filter is_confirmation (events (snd (callback_lookup e req w))) = filter is_confirmation (events w)"
  by (simp add: callback_lookup_def Let_def emit_def is_confirmation_def split: option.splits)

lemma callback_lookup_admin_notifications:
  "filter is_admin_notification (events (snd (callback_lookup e req w)))
     = filter is_admin_notification (events w)"
  by (simp add: callback_lookup_def Let_def emit_def is_admin_notification_def split: option.splits)

lemma phonepe_callback_Inl:
  "fst (callback_lookup e req w) = Inl r \<Longrightarrow>
     phonepe_callback e req w = (r, snd (callback_lookup e req w))"
  by (cases "callback_lookup e req w") (simp add: phonepe_callback_def)

text \<open>A delivery that ends in step 1 to 5 leaves the orders and the notifications as they
  were, and so does its repetition.\<close>

lemma phonepe_callback_early:
  assumes "fst (callback_lookup e req w) = Inl r"
  shows "orders (snd (phonepe_callback e req w)) = orders w"
    and "filter is_notification (events (snd (phonepe_callback e req w)))
           = filter is_notification (events w)"
    and "filter is_confirmation (events (snd (phonepe_callback e req w)))
           = filter is_confirmation (events w)"
    and "filter is_admin_notification (events (snd (phonepe_callback e req w)))
           = filter is_admin_notification (events w)"
  using assms
  by (simp_all add: phonepe_callback_Inl callback_lookup_orders callback_lookup_notifications
        callback_lookup_confirmations callback_lookup_admin_notifications)

lemma correlated_orders_onlineD:
  "correlated_orders_online db \<Longrightarrow> x \<in> set db \<Longrightarrow> merchantTransactionId x = Some m
     \<Longrightarrow> paymentMethod x = Online"
  by (auto simp: correlated_orders_online_def list_all_iff)

text \<open>After a delivery that reached step 6, the order its id correlates with is settled.\<close>

lemma callback_apply_settles:
  assumes "findOne_mtid m (orders w) = Some ord" "paymentMethod ord = Online"
  shows "\<exists>x. findOne_mtid m (orders (snd (callback_apply ord dr d w))) = Some x
              \<and> (paymentStatus x = Paid \<or> paymentStatus x = Failed)"
proof -
  have m: "merchantTransactionId ord = Some m"
    using assms(1) by (auto simp: findOne_mtid_def dest: find_Some_mem)
  have "paymentStatus (settled_doc ord dr d) = Paid \<or> paymentStatus (settled_doc ord dr d) = Failed"
    by (simp add: settled_doc_def)
  moreover have "findOne_mtid m (update_by_id (settled_doc ord dr d) (orders w))
                   = Some (settled_doc ord dr d)"
    using m by (intro findOne_mtid_update_by_id [OF assms(1)]) (simp_all add: settled_doc_def)
  ultimately show ?thesis
    by (simp add: callback_apply_orders [OF assms(2)])
qed


subsection \<open>The transition of a pending order\<close>

text \<open>
  C3. A verified callback whose merchant transaction id correlates with a pending order is
  answered with status 200. If the success flag is set and result code, payment state and
  response code are \<open>PAYMENT_SUCCESS\<close>, \<open>COMPLETED\<close> and \<open>SUCCESS\<close>, the amount divided by
  100 (a division of doubles) is compared with the total of the order by \<^verbatim>\<open>!==\<close>: when they
  do not differ the stored order becomes paid and processing, when they differ paid and
  payment_issue. In every other case it becomes failed and payment_failed. In all three cases
  the gateway transaction id of the callback is stored. The order is an online order; on a
  cash order the pre-save hook would set the payment status back at the save.
\<close>

theorem callback_transition_on_pending:
  assumes "verified_callback e req dr d m"
    and "findOne_mtid m (orders w) = Some ord"
    and "paymentStatus ord = Pending"
    and "paymentMethod ord = Online"
  shows "fst (phonepe_callback e req w) = (200, ''Callback processed successfully.'')
         \<and> findById (order_id ord) (orders (snd (phonepe_callback e req w))) =
             Some (if success_combination dr d then
                     (if js_strict_neq (js_div (js_to_number (data_amount d)) (js_int 100))
                           (order_total ord)
                      then ord\<lparr>status := Payment_issue, paymentStatus := Paid,
                               gatewayTransactionId := data_transactionId d\<rparr>
                      else ord\<lparr>status := Processing, paymentStatus := Paid,
                               gatewayTransactionId := data_transactionId d\<rparr>)
                   else ord\<lparr>status := Payment_failed, paymentStatus := Failed,
                            gatewayTransactionId := data_transactionId d\<rparr>)"
proof -
  let ?w0 = "emit [FindOne_mtid m] w"
  have run: "phonepe_callback e req w = callback_apply ord dr d ?w0"
    using assms by (simp add: phonepe_callback_open_order)
  have mem: "ord \<in> set (orders ?w0)"
    using assms(2) by (auto simp: findOne_mtid_def emit_def dest: find_Some_mem)
  have upd: "\<And>x. order_id x = order_id ord \<Longrightarrow>
               findById (order_id ord) (update_by_id x (orders ?w0)) = Some x"
    using findById_update_by_id [OF mem] by metis
  show ?thesis
    unfolding run
    by (simp add: callback_apply_reply callback_apply_orders [OF assms(4)] upd settled_doc_def)
qed




lemma emit_simps [simp]:
  "orders (emit es w) = orders w" "users (emit es w) = users w"
  "events (emit es w) = events w @ es"
  by (simp_all add: emit_def)

subsection \<open>Idempotence\<close>



lemma pre_save_settled_fields [simp]:
  "order_id (pre_save False (settled_doc ord dr d)) = order_id ord"
  "merchantTransactionId (pre_save False (settled_doc ord dr d)) = merchantTransactionId ord"
  by (simp_all add: pre_save_def settled_doc_def Let_def)




lemma callback_apply_saves:
  "length (filter is_save (events (snd (callback_apply ord dr d w))))
     = length (filter is_save (events w)) + 1"
  by (simp add: callback_apply_def Let_def save_def send_emails_def emit_def is_save_def
        split: option.splits)

subsection \<open>Two deliveries for one merchant transaction id\<close>

text \<open>
  C8. The handler loads the order (step 4), checks its payment status on the loaded document
  (step 5) and later saves that document (step 6); the save is not conditional on the stored
  payment status. What holds is the property of two deliveries handled one after the other:
  for two verified callbacks with the merchant transaction id of a pending online order, the
  first performs the transition, the second is answered \<open>Already processed.\<close> and leaves the
  orders as they were; exactly one save takes place and the order ends paid or failed.
\<close>

theorem callbacks_in_sequence:
  assumes "verified_callback e req1 dr1 d1 m"
    and "verified_callback e req2 dr2 d2 m"
    and "findOne_mtid m (orders w) = Some ord"
    and "paymentStatus ord = Pending"
    and "paymentMethod ord = Online"
  shows "fst (callback_sequential e req1 req2 w)
           = ((200, ''Callback processed successfully.''), (200, ''Already processed.''))
         \<and> orders (snd (callback_sequential e req1 req2 w)) = orders (snd (phonepe_callback e req1 w))
         \<and> length (filter is_save (events (snd (callback_sequential e req1 req2 w))))
             = length (filter is_save (events w)) + 1
         \<and> (\<exists>x. findOne_mtid m (orders (snd (callback_sequential e req1 req2 w))) = Some x
                 \<and> (paymentStatus x = Paid \<or> paymentStatus x = Failed))"
proof -
  let ?w1 = "snd (phonepe_callback e req1 w)"
  have run1: "phonepe_callback e req1 w = callback_apply ord dr1 d1 (emit [FindOne_mtid m] w)"
    using assms by (simp add: phonepe_callback_open_order)
  have "findOne_mtid m (orders (emit [FindOne_mtid m] w)) = Some ord"
    using assms(3) by simp
  from callback_apply_settles [OF this assms(5), of dr1 d1]
  obtain x where x: "findOne_mtid m (orders ?w1) = Some x"
      "paymentStatus x = Paid \<or> paymentStatus x = Failed"
    unfolding run1 by blast
  have run2: "phonepe_callback e req2 ?w1 = ((200, ''Already processed.''), emit [FindOne_mtid m] ?w1)"
    using assms(2) x by (rule phonepe_callback_settled_order)
  have r1: "fst (phonepe_callback e req1 w) = (200, ''Callback processed successfully.'')"
    unfolding run1 by (rule callback_apply_reply)
  have seq: "callback_sequential e req1 req2 w
               = (((200, ''Callback processed successfully.''), (200, ''Already processed.'')),
                  emit [FindOne_mtid m] ?w1)"
    using run2 r1 by (simp add: callback_sequential_def case_prod_beta)
  have saves: "length (filter is_save (events ?w1)) = length (filter is_save (events w)) + 1"
    unfolding run1
    using callback_apply_saves [of ord dr1 d1 "emit [FindOne_mtid m] w"]
    by (simp add: is_save_def)
  show ?thesis
    unfolding seq using x saves by (simp add: is_save_def)
qed

lemmas callback_defs = phonepe_callback_def callback_lookup_def callback_apply_def
  verifyChecksum_def expectedChecksum_literal_def findOne_mtid_def findById_def save_def
  send_emails_def pre_save_def emit_def Let_def

lemma verified_examples:
  "verified_callback example_env (accepted_request ''paid'') (success_response (Some 50000))
     (example_data (Some 50000) ''T1'' ''COMPLETED'' ''SUCCESS'') ''MT_1''"
  "verified_callback example_env (accepted_request ''short'') (success_response (Some 40000))
     (example_data (Some 40000) ''T1'' ''COMPLETED'' ''SUCCESS'') ''MT_1''"
  "verified_callback example_env (accepted_request ''bare'') (success_response None)
     (example_data None ''T1'' ''COMPLETED'' ''SUCCESS'') ''MT_1''"
  "verified_callback example_env (accepted_request ''fail'') failure_response
     (example_data (Some 50000) ''T2'' ''FAILED'' ''PAYMENT_ERROR'') ''MT_1''"
  "verified_callback example_env (accepted_request ''cents'') (success_response (Some 49999))
     (example_data (Some 49999) ''T1'' ''COMPLETED'' ''SUCCESS'') ''MT_1''"
  by (simp_all add: verified_callback_def verifyChecksum_def expectedChecksum_literal_def
        example_defs)

lemma example_world_facts:
  "findOne_mtid ''MT_1'' (orders example_world) = Some example_order"
  "paymentStatus example_order = Pending" "paymentMethod example_order = Online"
  "order_id example_order = 1" "order_total example_order = js_int 500"
  "correlated_orders_online (orders example_world)"
  "findOne_mtid ''MT_1'' (orders cents_world)
     = Some (example_order\<lparr>order_total := js_number (49999 / 100)\<rparr>)"
  by (simp_all add: findOne_mtid_def correlated_orders_online_def example_defs)

text \<open>When the two deliveries overlap so that both load the order before either saves it,
  both pass the check of step 5 and both save: a success and a failure for the example order
  leave it failed, after the confirmation and the admin notification have been sent, and
  neither delivery took the path of an order already processed.\<close>

theorem overlapping_callbacks_counterexample:
  "callback_overlapped example_env (accepted_request ''paid'') (accepted_request ''fail'')
       example_world
     = (((200, ''Callback processed successfully.''), (200, ''Callback processed successfully.'')),
        \<lparr>orders = [example_order\<lparr>status := Payment_failed, paymentStatus := Failed,
                                  gatewayTransactionId := Some ''T2''\<rparr>],
         users = example_users,
         events = [FindOne_mtid ''MT_1'', FindOne_mtid ''MT_1'',
                   Save 1, FindById 1, SendOrderConfirmation ''buyer@example.org'' 1,
                   SendOrderNotificationToAdmin 1,
                   Save 1]\<rparr>)"
  by (simp add: callback_overlapped_def callback_defs example_defs number_evals)

text \<open>The property at the example order of 500, for callbacks with the amounts 50000 and
  40000 and for a failure, and at an order of 499.99 for a callback with the amount 49999:
  the quotient 49999 / 100 and the total 499.99 are the same double.\<close>

theorem callback_transition_on_pending_witness:
  "verified_callback example_env (accepted_request ''paid'') (success_response (Some 50000))
     (example_data (Some 50000) ''T1'' ''COMPLETED'' ''SUCCESS'') ''MT_1''
   \<and> findOne_mtid ''MT_1'' (orders example_world) = Some example_order
   \<and> paymentStatus example_order = Pending \<and> paymentMethod example_order = Online
   \<and> findById 1 (orders (snd (phonepe_callback example_env (accepted_request ''paid'') example_world)))
       = Some (example_order\<lparr>status := Processing, paymentStatus := Paid,
                             gatewayTransactionId := Some ''T1''\<rparr>)
   \<and> findById 1 (orders (snd (phonepe_callback example_env (accepted_request ''short'') example_world)))
       = Some (example_order\<lparr>status := Payment_issue, paymentStatus := Paid,
                             gatewayTransactionId := Some ''T1''\<rparr>)
   \<and> findById 1 (orders (snd (phonepe_callback example_env (accepted_request ''fail'') example_world)))
       = Some (example_order\<lparr>status := Payment_failed, paymentStatus := Failed,
                             gatewayTransactionId := Some ''T2''\<rparr>)
   \<and> findById 1 (orders (snd (phonepe_callback example_env (accepted_request ''cents'') cents_world)))
       = Some (example_order\<lparr>order_total := js_number (49999 / 100),
                             status := Processing, paymentStatus := Paid,
                             gatewayTransactionId := Some ''T1''\<rparr>)"
proof -
  let ?cents = "example_order\<lparr>order_total := js_number (49999 / 100)\<rparr>"
  have pc: "paymentStatus ?cents = Pending" "paymentMethod ?cents = Online" "order_id ?cents = 1"
    by (simp_all add: example_world_facts)
  note t1 = callback_transition_on_pending
              [OF verified_examples(1) example_world_facts(1) example_world_facts(2)
                  example_world_facts(3)]
  note t2 = callback_transition_on_pending
              [OF verified_examples(2) example_world_facts(1) example_world_facts(2)
                  example_world_facts(3)]
  note t3 = callback_transition_on_pending
              [OF verified_examples(4) example_world_facts(1) example_world_facts(2)
                  example_world_facts(3)]
  note t4 = callback_transition_on_pending
              [OF verified_examples(5) example_world_facts(7) pc(1) pc(2)]
  have a: "findById 1 (orders (snd (phonepe_callback example_env (accepted_request ''paid'') example_world)))
       = Some (example_order\<lparr>status := Processing, paymentStatus := Paid,
                             gatewayTransactionId := Some ''T1''\<rparr>)"
    using t1
    by (simp add: example_world_facts success_combination_def success_response_def
          example_data_def number_evals)
  have b: "findById 1 (orders (snd (phonepe_callback example_env (accepted_request ''short'') example_world)))
       = Some (example_order\<lparr>status := Payment_issue, paymentStatus := Paid,
                             gatewayTransactionId := Some ''T1''\<rparr>)"
    using t2
    by (simp add: example_world_facts success_combination_def success_response_def
          example_data_def number_evals)
  have c: "findById 1 (orders (snd (phonepe_callback example_env (accepted_request ''fail'') example_world)))
       = Some (example_order\<lparr>status := Payment_failed, paymentStatus := Failed,
                             gatewayTransactionId := Some ''T2''\<rparr>)"
    using t3
    by (simp add: example_world_facts success_combination_def failure_response_def
          example_data_def)
  have d: "findById 1 (orders (snd (phonepe_callback example_env (accepted_request ''cents'') cents_world)))
       = Some (example_order\<lparr>order_total := js_number (49999 / 100),
                             status := Processing, paymentStatus := Paid,
                             gatewayTransactionId := Some ''T1''\<rparr>)"
    using t4
    by (simp add: pc success_combination_def success_response_def example_data_def number_evals)
  show ?thesis
    using a b c d verified_examples(1) example_world_facts by simp
qed


lemma callback_paid_example:
  "phonepe_callback example_env (accepted_request ''paid'') example_world
     = ((200, ''Callback processed successfully.''),
        \<lparr>orders = [example_order\<lparr>status := Processing, paymentStatus := Paid,
                                  gatewayTransactionId := Some ''T1''\<rparr>],
         users = example_users,
         events = [FindOne_mtid ''MT_1'', Save 1, FindById 1,
                   SendOrderConfirmation ''buyer@example.org'' 1,
                   SendOrderNotificationToAdmin 1]\<rparr>)"
  by (simp add: callback_defs example_defs number_evals)


text \<open>The property of sequential deliveries at a success followed by a failure.\<close>

theorem callbacks_in_sequence_witness:
  "verified_callback example_env (accepted_request ''paid'') (success_response (Some 50000))
     (example_data (Some 50000) ''T1'' ''COMPLETED'' ''SUCCESS'') ''MT_1''
   \<and> verified_callback example_env (accepted_request ''fail'') failure_response
     (example_data (Some 50000) ''T2'' ''FAILED'' ''PAYMENT_ERROR'') ''MT_1''
   \<and> findOne_mtid ''MT_1'' (orders example_world) = Some example_order
   \<and> paymentStatus example_order = Pending \<and> paymentMethod example_order = Online
   \<and> fst (callback_sequential example_env (accepted_request ''paid'') (accepted_request ''fail'')
           example_world)
       = ((200, ''Callback processed successfully.''), (200, ''Already processed.''))
   \<and> orders (snd (callback_sequential example_env (accepted_request ''paid'')
                    (accepted_request ''fail'') example_world))
       = [example_order\<lparr>status := Processing, paymentStatus := Paid,
                         gatewayTransactionId := Some ''T1''\<rparr>]
   \<and> length (filter is_save (events (snd (callback_sequential example_env
                 (accepted_request ''paid'') (accepted_request ''fail'') example_world)))) = 1"
proof -
  note t = callbacks_in_sequence
             [OF verified_examples(1) verified_examples(4) example_world_facts(1)
                 example_world_facts(2) example_world_facts(3)]
  have a: "orders (snd (callback_sequential example_env (accepted_request ''paid'')
                    (accepted_request ''fail'') example_world))
       = [example_order\<lparr>status := Processing, paymentStatus := Paid,
                         gatewayTransactionId := Some ''T1''\<rparr>]"
    using t by (simp add: callback_paid_example)
  have b: "length (filter is_save (events (snd (callback_sequential example_env
                 (accepted_request ''paid'') (accepted_request ''fail'') example_world)))) = 1"
    using t by (simp add: example_world_def)
  show ?thesis
    using t a b verified_examples(1) verified_examples(4) example_world_facts by simp
qed

text \<open>A cash order with a merchant transaction id, as \<^verbatim>\<open>POST /\<close> of \<^verbatim>\<open>routes/orders.js\<close>
  stores it when the caller sends one: the hook sets its payment status to not_applicable at
  every save, the check of step 5 never finds it paid or failed, and the same callback,
  handled twice, sends the order confirmation and the admin notification twice.\<close>

lemma legacy_create_correlated_cod:
  "legacy_create_order example_env 1 7 correlated_cod_body empty_world
     = (Inr correlated_cod_order, correlated_cod_world)"
  by (simp add: legacy_create_order_def Order_create_def build_order_def validate_item_def
        validate_address_def enum_path_def optional_enum_path_def payment_method_of_def
        pre_save_def emit_def Let_def example_defs)


subsection \<open>Facts about the creation of orders\<close>

lemma pre_save_new:
  "pre_save True x =
     (if paymentMethod x = Cod then x\<lparr>paymentStatus := Not_applicable, status := Processing\<rparr>
      else x\<lparr>paymentStatus := Pending, status := Payment_pending\<rparr>)"
  by (simp add: pre_save_def Let_def)

lemma build_order_fields:
  assumes "build_order e newId od = Some x"
  shows "order_id x = newId
         \<and> castNumber (string_to_number e) (od_total od) = Cast_number (order_total x)
         \<and> od_userId od = Some (userId x)
         \<and> merchantTransactionId x = od_merchantTransactionId od
         \<and> shippingCharge x = (case od_shippingCharge od of None \<Rightarrow> js_int 0 | Some c \<Rightarrow> c)
         \<and> validate_items (od_items od) = Some (items x)
         \<and> map_option payment_method_of (od_paymentMethod od) = Some (Some (paymentMethod x))"
  using assms
  by (auto simp: build_order_def split: option.splits prod.splits cast.splits if_splits)

lemma payment_method_of_cod [simp]: "payment_method_of ''cod'' = Some Cod"
  by (simp add: payment_method_of_def)

lemma payment_method_of_online [simp]: "payment_method_of ''online'' = Some Online"
  by (simp add: payment_method_of_def)

lemma payment_method_of_Some:
  "payment_method_of s = Some pm \<Longrightarrow> s = (if pm = Cod then ''cod'' else ''online'')"
  by (auto simp: payment_method_of_def split: if_splits)

lemma pre_save_order_id [simp]: "order_id (pre_save b x) = order_id x"
  by (simp add: pre_save_def Let_def)

lemma Order_create_Inr:
  assumes "Order_create e newId od w = (Inr x, w')"
  shows "\<exists>doc0. build_order e newId od = Some doc0 \<and> x = pre_save True doc0
           \<and> w' = emit [Insert newId] (w\<lparr>orders := orders w @ [x]\<rparr>)"
proof (cases "build_order e newId od")
  case None
  with assms show ?thesis by (simp add: Order_create_def)
next
  case (Some doc0)
  have "order_id doc0 = newId"
    using build_order_fields [OF Some] by simp
  with assms Some show ?thesis
    by (auto simp: Order_create_def Let_def)
qed

lemma Order_create_Inl:
  assumes "Order_create e newId od w = (Inl err, w')"
  shows "w' = w \<and> err = ValidationError"
  using assms
  by (auto simp: Order_create_def Let_def split: option.splits)

lemma Order_create_statuses:
  assumes "Order_create e newId od w = (Inr x, w')"
  shows "orders w' = orders w @ [x] \<and> order_id x = newId
         \<and> castNumber (string_to_number e) (od_total od) = Cast_number (order_total x)
         \<and> od_paymentMethod od = Some (if paymentMethod x = Cod then ''cod'' else ''online'')
         \<and> (paymentMethod x = Cod \<longrightarrow> paymentStatus x = Not_applicable \<and> status x = Processing)
         \<and> (paymentMethod x = Online \<longrightarrow> paymentStatus x = Pending \<and> status x = Payment_pending)"
proof -
  from Order_create_Inr [OF assms] obtain doc0 where
    b: "build_order e newId od = Some doc0" and x: "x = pre_save True doc0"
    and w': "w' = emit [Insert newId] (w\<lparr>orders := orders w @ [x]\<rparr>)"
    by blast
  note f = build_order_fields [OF b]
  from f obtain s where s: "od_paymentMethod od = Some s" "payment_method_of s = Some (paymentMethod doc0)"
    by (cases "od_paymentMethod od") auto
  have pm: "paymentMethod x = paymentMethod doc0"
    by (simp add: x pre_save_new)
  show ?thesis
    using f s payment_method_of_Some [OF s(2)] pm
    by (cases "paymentMethod doc0") (simp_all add: w' x pre_save_new)
qed

lemma create_cod_order_Inr:
  assumes "create_cod_order e newId user_id body w = (Inr x, w')"
  shows "\<exists>od doc w1. Order_create e newId od w = (Inr doc, w1)
           \<and> od_total od = body_total body \<and> od_paymentMethod od = Some ''cod''
           \<and> \<not> js_falsy (body_total body)
           \<and> orders w' = orders w1 \<and> findById newId (orders w1) = Some x"
proof -
  let ?od = "\<lparr>od_userId = Some user_id, od_items = items_of (body_items body),
               od_shippingAddress = body_shippingAddress body,
               od_paymentMethod = Some ''cod'', od_paymentGateway = Some ''cod'',
               od_shippingCharge = body_shippingCharge body,
               od_total = body_total body,
               od_merchantTransactionId = None, od_gatewayTransactionId = None,
               od_paymentStatus = None, od_status = None\<rparr>"
  have guard: "body_paymentMethod body = Some ''cod''" "\<not> js_falsy (body_total body)"
    using assms by (auto simp: create_cod_order_def Let_def split: if_splits)
  obtain r w1 where c: "Order_create e newId ?od w = (r, w1)"
    by (cases "Order_create e newId ?od w") auto
  show ?thesis
  proof (cases r)
    case (Inl err)
    with assms c guard show ?thesis
      by (auto simp: create_cod_order_def Let_def split: if_splits)
  next
    case (Inr doc)
    have id: "order_id doc = newId"
      using Order_create_statuses c Inr by blast
    have "orders w' = orders w1 \<and> findById newId (orders w1) = Some x"
      using assms c Inr guard id
      by (auto simp: create_cod_order_def Let_def split: if_splits option.splits)
    with c Inr guard show ?thesis
      by (intro exI [of _ ?od] exI [of _ doc] exI [of _ w1]) simp
  qed
qed

lemma initiate_create_Inr:
  assumes "initiate_create e newId uuid user_id body w = (Inr x, w')"
  shows "\<exists>od. Order_create e newId od w = (Inr x, w')
           \<and> od_total od = body_total body \<and> od_paymentMethod od = Some ''online''
           \<and> od_merchantTransactionId od = Some (generateMerchantTransactionId uuid)
           \<and> \<not> js_falsy (body_total body)"
  using assms
  by (auto simp: initiate_create_def Let_def split: if_splits)

lemma findById_append_fresh:
  "newId \<notin> order_id ` set db \<Longrightarrow> order_id x = newId \<Longrightarrow> findById newId (db @ [x]) = Some x"
  by (induction db) (auto simp: findById_def)

lemma findById_mem: "findById i db = Some x \<Longrightarrow> x \<in> set db \<and> order_id x = i"
  by (induction db) (auto simp: findById_def split: if_splits)

lemma falsy_total_rejected:
  assumes "js_falsy (body_total body)"
  shows "(\<exists>err. create_cod_order e newId user_id body w = (Inl err, w))
         \<and> (\<exists>err. initiate_create e newId uuid user_id body w = (Inl err, w))"
  using assms by (simp add: create_cod_order_def initiate_create_def Let_def)

lemma legacy_create_order_Inr:
  assumes "legacy_create_order e newId user_id body w = (Inr x, w')"
  shows "\<exists>od. Order_create e newId od w = (Inr x, w') \<and> od_total od = od_total body
           \<and> od_paymentMethod od = od_paymentMethod body
           \<and> od_merchantTransactionId od = od_merchantTransactionId body"
  using assms unfolding legacy_create_order_def
  by (intro exI [of _ "body\<lparr>od_userId := (case od_userId body of None \<Rightarrow> Some user_id
                                            | Some u \<Rightarrow> Some u)\<rparr>"]) simp

text \<open>The validators do not look at the value of the total: a request that is accepted
  with one total is accepted with every total that casts to a Number.\<close>

lemma build_order_any_total:
  assumes "build_order e newId od = Some doc0"
    and "castNumber (string_to_number e) t = Cast_number n"
  shows "build_order e newId (od\<lparr>od_total := t\<rparr>) = Some (doc0\<lparr>order_total := n\<rparr>)"
  using assms
  by (auto simp: build_order_def split: option.splits prod.splits cast.splits if_splits)

lemma pre_save_order_total: "pre_save b (x\<lparr>order_total := n\<rparr>) = (pre_save b x)\<lparr>order_total := n\<rparr>"
  by (simp add: pre_save_def Let_def)

lemma Order_create_any_total:
  assumes "Order_create e newId od w = (Inr x, w')"
    and "castNumber (string_to_number e) t = Cast_number n"
  shows "Order_create e newId (od\<lparr>od_total := t\<rparr>) w
           = (Inr (x\<lparr>order_total := n\<rparr>), w'\<lparr>orders := orders w @ [x\<lparr>order_total := n\<rparr>]\<rparr>)"
proof -
  from Order_create_Inr [OF assms(1)] obtain doc0 where
    b: "build_order e newId od = Some doc0" and x: "x = pre_save True doc0"
    and w': "w' = emit [Insert newId] (w\<lparr>orders := orders w @ [x]\<rparr>)"
    by blast
  have id: "order_id doc0 = newId"
    using build_order_fields [OF b] by simp
  show ?thesis
    by (simp add: Order_create_def build_order_any_total [OF b assms(2)] Let_def
          pre_save_order_total x w' emit_def id)
qed



subsection \<open>Creation of orders\<close>

text \<open>
  C5. Neither a route nor the schema compares the total with the items and the shipping
  charge. What holds: every order that \<^verbatim>\<open>Order.create\<close> accepts, and so every order that
  one of the three creation routes accepts, is stored with the total of the request as the
  schema casts it to a Number; and a request that \<^verbatim>\<open>Order.create\<close> accepts with one total
  is accepted with every other total that casts to a Number, whatever the items and the
  shipping charge are.
\<close>

theorem creation_stores_supplied_total:
  "(Order_create e newId od w0 = (Inr z, w0')
      \<longrightarrow> orders w0' = orders w0 @ [z]
          \<and> castNumber (string_to_number e) (od_total od) = Cast_number (order_total z))
   \<and> (create_cod_order e newId user_id body_c w = (Inr x, w')
      \<longrightarrow> (\<exists>doc. orders w' = orders w @ [doc]
                  \<and> castNumber (string_to_number e) (body_total body_c)
                       = Cast_number (order_total doc)))
   \<and> (initiate_create e newId user_uuid user_id body_o v = (Inr y, v')
      \<longrightarrow> orders v' = orders v @ [y]
          \<and> castNumber (string_to_number e) (body_total body_o) = Cast_number (order_total y))
   \<and> (legacy_create_order e newId user_id body_l u = (Inr q, u')
      \<longrightarrow> orders u' = orders u @ [q]
          \<and> castNumber (string_to_number e) (od_total body_l) = Cast_number (order_total q))
   \<and> (Order_create e newId od w0 = (Inr z, w0') \<and> castNumber (string_to_number e) t = Cast_number n
      \<longrightarrow> Order_create e newId (od\<lparr>od_total := t\<rparr>) w0
            = (Inr (z\<lparr>order_total := n\<rparr>),
               w0'\<lparr>orders := orders w0 @ [z\<lparr>order_total := n\<rparr>]\<rparr>))"
proof (intro conjI impI)
  assume c: "Order_create e newId od w0 = (Inr z, w0')"
  from Order_create_statuses [OF c]
  show "orders w0' = orders w0 @ [z]"
    "castNumber (string_to_number e) (od_total od) = Cast_number (order_total z)"
    by simp_all
next
  assume "create_cod_order e newId user_id body_c w = (Inr x, w')"
  from create_cod_order_Inr [OF this] obtain od' doc w1 where
    c: "Order_create e newId od' w = (Inr doc, w1)" and t: "od_total od' = body_total body_c"
    and o: "orders w' = orders w1"
    by blast
  from Order_create_statuses [OF c] t o
  show "\<exists>doc. orders w' = orders w @ [doc]
                  \<and> castNumber (string_to_number e) (body_total body_c)
                       = Cast_number (order_total doc)"
    by (intro exI [of _ doc]) auto
next
  assume "initiate_create e newId user_uuid user_id body_o v = (Inr y, v')"
  from initiate_create_Inr [OF this] obtain od' where
    c: "Order_create e newId od' v = (Inr y, v')" and t: "od_total od' = body_total body_o"
    by blast
  from Order_create_statuses [OF c] t
  show "orders v' = orders v @ [y]"
    "castNumber (string_to_number e) (body_total body_o) = Cast_number (order_total y)"
    by auto
next
  assume "legacy_create_order e newId user_id body_l u = (Inr q, u')"
  from legacy_create_order_Inr [OF this] obtain od' where
    c: "Order_create e newId od' u = (Inr q, u')" and t: "od_total od' = od_total body_l"
    by blast
  from Order_create_statuses [OF c] t
  show "orders u' = orders u @ [q]"
    "castNumber (string_to_number e) (od_total body_l) = Cast_number (order_total q)"
    by auto
next
  assume "Order_create e newId od w0 = (Inr z, w0') \<and> castNumber (string_to_number e) t = Cast_number n"
  then show "Order_create e newId (od\<lparr>od_total := t\<rparr>) w0
            = (Inr (z\<lparr>order_total := n\<rparr>),
               w0'\<lparr>orders := orders w0 @ [z\<lparr>order_total := n\<rparr>]\<rparr>)"
    using Order_create_any_total by blast
qed

lemmas creation_defs = create_cod_order_def initiate_create_def legacy_create_order_def
  Order_create_def build_order_def
  validate_item_def validate_address_def enum_path_def optional_enum_path_def
  payment_method_of_def payment_gateway_of_def payment_status_of_def order_status_of_def
  pre_save_def emit_def findById_def generateMerchantTransactionId_def Let_def

lemma create_cod_mispriced:
  "create_cod_order example_env 2 7 (example_body ''cod'' 5) empty_world =
     (Inr mispriced_order,
      \<lparr>orders = [mispriced_order], users = example_users,
       events = [Insert 2, FindById 2, SendOrderConfirmation ''buyer@example.org'' 2,
                 SendOrderNotificationToAdmin 2]\<rparr>)"
  by (simp add: creation_defs example_defs)

lemma initiate_create_example:
  "initiate_create example_env 2 ''a-b'' 7 (example_body ''online'' 500) empty_world =
     (Inr new_online_order,
      \<lparr>orders = [new_online_order], users = example_users, events = [Insert 2]\<rparr>)"
  by (simp add: creation_defs example_defs)

text \<open>A cash order of two units at 250 without shipping charge, sent with the total 5, is
  accepted and stored with the total 5.\<close>

theorem creation_accepts_any_total_counterexample:
  "fst (create_cod_order example_env 2 7 (example_body ''cod'' 5) empty_world) = Inr mispriced_order
   \<and> orders (snd (create_cod_order example_env 2 7 (example_body ''cod'' 5) empty_world))
       = [mispriced_order]
   \<and> order_total mispriced_order = js_int 5
   \<and> js_value (order_total mispriced_order) = 5
   \<and> sum_list (map (\<lambda>i. js_value (quantity i) * js_value (price i)) (items mispriced_order))
        + js_value (shippingCharge mispriced_order) = 500
   \<and> \<not> total_equation mispriced_order"
  by (simp add: create_cod_mispriced) (simp add: mispriced_order_def total_equation_def)

text \<open>The property at the example bodies: the cash order with the total 5, an online order,
  an order made by the older route, and the cash order again with the total 500 in place of
  the total 5.\<close>

theorem creation_stores_supplied_total_witness:
  "Order_create example_env 2 (forged_order_data ''cod'') empty_world
     = (Inr (mispriced_order\<lparr>order_total := js_int 500, paymentGateway := None\<rparr>),
        snd (Order_create example_env 2 (forged_order_data ''cod'') empty_world))
   \<and> create_cod_order example_env 2 7 (example_body ''cod'' 5) empty_world
     = (Inr mispriced_order, snd (create_cod_order example_env 2 7 (example_body ''cod'' 5) empty_world))
   \<and> (\<exists>doc. orders (snd (create_cod_order example_env 2 7 (example_body ''cod'' 5) empty_world))
               = orders empty_world @ [doc]
             \<and> castNumber (string_to_number example_env) (body_total (example_body ''cod'' 5))
                 = Cast_number (order_total doc))
   \<and> initiate_create example_env 2 ''a-b'' 7 (example_body ''online'' 500) empty_world
     = (Inr new_online_order,
        snd (initiate_create example_env 2 ''a-b'' 7 (example_body ''online'' 500) empty_world))
   \<and> castNumber (string_to_number example_env) (body_total (example_body ''online'' 500))
       = Cast_number (order_total new_online_order)
   \<and> legacy_create_order example_env 1 7 correlated_cod_body empty_world
     = (Inr correlated_cod_order, correlated_cod_world)
   \<and> castNumber (string_to_number example_env) (od_total correlated_cod_body)
       = Cast_number (order_total correlated_cod_order)
   \<and> castNumber (string_to_number example_env) (JString ''0'') = Cast_number (js_int 0)
   \<and> fst (Order_create example_env 2 ((forged_order_data ''cod'')\<lparr>od_total := JString ''0''\<rparr>)
            empty_world)
       = Inr (mispriced_order\<lparr>order_total := js_int 0, paymentGateway := None\<rparr>)"
proof -
  let ?zc = "mispriced_order\<lparr>order_total := js_int 500, paymentGateway := None\<rparr>"
  have a: "Order_create example_env 2 (forged_order_data ''cod'') empty_world
             = (Inr ?zc, snd (Order_create example_env 2 (forged_order_data ''cod'') empty_world))"
    by (simp add: creation_defs example_defs)
  have b: "create_cod_order example_env 2 7 (example_body ''cod'' 5) empty_world
     = (Inr mispriced_order, snd (create_cod_order example_env 2 7 (example_body ''cod'' 5) empty_world))"
    by (simp add: create_cod_mispriced)
  have c: "initiate_create example_env 2 ''a-b'' 7 (example_body ''online'' 500) empty_world
     = (Inr new_online_order,
        snd (initiate_create example_env 2 ''a-b'' 7 (example_body ''online'' 500) empty_world))"
    by (simp add: initiate_create_example)
  have d: "legacy_create_order example_env 1 7 correlated_cod_body empty_world
     = (Inr correlated_cod_order, correlated_cod_world)"
    by (rule legacy_create_correlated_cod)
  have z: "castNumber (string_to_number example_env) (JString ''0'') = Cast_number (js_int 0)"
    by (simp add: example_env_def)
  note t' = creation_stores_supplied_total
         [of example_env 1 "forged_order_data ''cod''" empty_world ?zc
             "snd (Order_create example_env 2 (forged_order_data ''cod'') empty_world)"
             7 "example_body ''cod'' 5" empty_world mispriced_order
             "snd (create_cod_order example_env 2 7 (example_body ''cod'' 5) empty_world)"
             "''a-b''" "example_body ''online'' 500" empty_world new_online_order
             "snd (initiate_create example_env 2 ''a-b'' 7 (example_body ''online'' 500) empty_world)"
             correlated_cod_body empty_world correlated_cod_order correlated_cod_world]
  note t0 = creation_stores_supplied_total
         [of example_env 2 "forged_order_data ''cod''" empty_world ?zc
             "snd (Order_create example_env 2 (forged_order_data ''cod'') empty_world)"
             7 "example_body ''cod'' 5" empty_world mispriced_order
             "snd (create_cod_order example_env 2 7 (example_body ''cod'' 5) empty_world)"
             "''a-b''" "example_body ''online'' 500" empty_world new_online_order
             "snd (initiate_create example_env 2 ''a-b'' 7 (example_body ''online'' 500) empty_world)"
             correlated_cod_body empty_world correlated_cod_order correlated_cod_world
             "JString ''0''" "js_int 0"]
  have s1: "\<exists>doc. orders (snd (create_cod_order example_env 2 7 (example_body ''cod'' 5) empty_world))
               = orders empty_world @ [doc]
             \<and> castNumber (string_to_number example_env) (body_total (example_body ''cod'' 5))
                 = Cast_number (order_total doc)"
    using t0 b by blast
  have s2: "castNumber (string_to_number example_env) (body_total (example_body ''online'' 500))
       = Cast_number (order_total new_online_order)"
    using t0 c by blast
  have s3: "castNumber (string_to_number example_env) (od_total correlated_cod_body)
       = Cast_number (order_total correlated_cod_order)"
    using t' d by blast
  have "Order_create example_env 2 ((forged_order_data ''cod'')\<lparr>od_total := JString ''0''\<rparr>) empty_world
       = (Inr (?zc\<lparr>order_total := js_int 0\<rparr>),
          (snd (Order_create example_env 2 (forged_order_data ''cod'') empty_world))
            \<lparr>orders := orders empty_world @ [?zc\<lparr>order_total := js_int 0\<rparr>]\<rparr>)"
    using t0 a z by blast
  then have s4: "fst (Order_create example_env 2 ((forged_order_data ''cod'')\<lparr>od_total := JString ''0''\<rparr>)
            empty_world)
       = Inr (mispriced_order\<lparr>order_total := js_int 0, paymentGateway := None\<rparr>)"
    by (simp add: mispriced_order_def)
  show ?thesis
    using a b c d z s1 s2 s3 s4 by blast
qed

text \<open>
  C6. Every document stored by \<^verbatim>\<open>Order.create\<close> has, if its payment method is cash on
  delivery, the payment status not_applicable and the status processing, and if its payment
  method is online, the payment status pending and the status payment_pending, whatever
  payment status and status its caller supplied. The cash route stores a cash order with
  these values and the online route an online order with these values; neither reads the
  payment status or the status of the request body.
\<close>

theorem creation_sets_initial_statuses:
  "(Order_create e newId od w0 = (Inr z, w0')
      \<longrightarrow> orders w0' = orders w0 @ [z]
          \<and> (paymentMethod z = Cod \<longrightarrow> paymentStatus z = Not_applicable \<and> status z = Processing)
          \<and> (paymentMethod z = Online \<longrightarrow> paymentStatus z = Pending \<and> status z = Payment_pending))
   \<and> (create_cod_order e newId user_id body_c w = (Inr x, w')
      \<longrightarrow> (\<exists>doc. orders w' = orders w @ [doc] \<and> paymentMethod doc = Cod
                  \<and> paymentStatus doc = Not_applicable \<and> status doc = Processing
                  \<and> (newId \<notin> order_id ` set (orders w) \<longrightarrow> x = doc)))
   \<and> (initiate_create e newId user_uuid user_id body_o v = (Inr y, v')
      \<longrightarrow> orders v' = orders v @ [y] \<and> paymentMethod y = Online
          \<and> paymentStatus y = Pending \<and> status y = Payment_pending)"
proof (intro conjI impI)
  assume "Order_create e newId od w0 = (Inr z, w0')"
  note s = Order_create_statuses [OF this]
  from s show "orders w0' = orders w0 @ [z]" by simp
  { assume "paymentMethod z = Cod"
    with s show "paymentStatus z = Not_applicable" "status z = Processing" by simp_all }
  { assume "paymentMethod z = Online"
    with s show "paymentStatus z = Pending" "status z = Payment_pending" by simp_all }
next
  assume "create_cod_order e newId user_id body_c w = (Inr x, w')"
  from create_cod_order_Inr [OF this] obtain od' doc w1 where
    c: "Order_create e newId od' w = (Inr doc, w1)" and pm: "od_paymentMethod od' = Some ''cod''"
    and o: "orders w' = orders w1" and f: "findById newId (orders w1) = Some x"
    by blast
  note s = Order_create_statuses [OF c]
  have cod: "paymentMethod doc = Cod"
    using s pm by (cases "paymentMethod doc") simp_all
  have "newId \<notin> order_id ` set (orders w) \<longrightarrow> x = doc"
  proof
    assume "newId \<notin> order_id ` set (orders w)"
    then have "findById newId (orders w @ [doc]) = Some doc"
      using s by (intro findById_append_fresh) simp_all
    with f s show "x = doc" by simp
  qed
  with s cod o
  show "\<exists>doc. orders w' = orders w @ [doc] \<and> paymentMethod doc = Cod
                  \<and> paymentStatus doc = Not_applicable \<and> status doc = Processing
                  \<and> (newId \<notin> order_id ` set (orders w) \<longrightarrow> x = doc)"
    by (intro exI [of _ doc]) simp
next
  assume "initiate_create e newId user_uuid user_id body_o v = (Inr y, v')"
  from initiate_create_Inr [OF this] obtain od' where
    c: "Order_create e newId od' v = (Inr y, v')" and pm: "od_paymentMethod od' = Some ''online''"
    by blast
  note s = Order_create_statuses [OF c]
  have onl: "paymentMethod y = Online"
    using s pm by (cases "paymentMethod y") simp_all
  with s show "orders v' = orders v @ [y]" "paymentMethod y = Online"
    "paymentStatus y = Pending" "status y = Payment_pending"
    by simp_all
qed

subsection \<open>A gateway call that fails\<close>

text \<open>A response without success flag or redirect URL marks the order failed; an Axios error
  changes no order.\<close>

lemma initiate_gateway_failure_response:
  assumes "\<not> (ok \<and> truthy url)"
  shows "initiate_gateway created (Gateway_response ok msg url) w =
           (Inl (AppError (if truthy msg then js_str msg
                           else ''Failed to initiate payment with PhonePe.'') 500),
            findByIdAndUpdate (order_id created)
              (\<lambda>x. x\<lparr>status := Payment_failed, paymentStatus := Failed\<rparr>)
              (emit [GatewayPay (js_str (merchantTransactionId created))] w))"
  using assms by (auto simp: initiate_gateway_def Let_def)

lemma initiate_gateway_axios_error:
  "\<exists>err. initiate_gateway created (Axios_error response_msg error_msg response_status) w =
           (Inl err, emit [GatewayPay (js_str (merchantTransactionId created))] w)"
  by (simp add: initiate_gateway_def Let_def)

text \<open>
  C7. The claim: when the gateway call fails synchronously, by an explicit failure response,
  a missing redirect URL or a network or HTTP error, the order becomes failed and
  payment_failed and the error is surfaced. Evaluated at a network error, the handler
  surfaces the error and leaves the order pending and payment_pending; at an explicit failure
  response it marks the order failed and payment_failed.
\<close>

theorem initiate_payment_network_error_stays_pending:
  "initiate_payment example_env 2 ''a-b'' (Axios_error None ''Network Error'' None) 7
       (example_body ''online'' 500) empty_world
     = (Inl (AppError ''PhonePe API Error: Network Error'' 500),
        \<lparr>orders = [new_online_order], users = example_users,
         events = [Insert 2, GatewayPay ''MT_ab'']\<rparr>)
   \<and> paymentStatus new_online_order = Pending \<and> status new_online_order = Payment_pending
   \<and> initiate_payment example_env 2 ''a-b'' (Gateway_response False (Some ''declined'') None) 7
       (example_body ''online'' 500) empty_world
     = (Inl (AppError ''declined'' 500),
        \<lparr>orders = [new_online_order\<lparr>status := Payment_failed, paymentStatus := Failed\<rparr>],
         users = example_users,
         events = [Insert 2, GatewayPay ''MT_ab'', FindByIdAndUpdate 2]\<rparr>)"
  by (simp add: initiate_payment_def initiate_create_example initiate_gateway_def
        findByIdAndUpdate_def emit_def Let_def)
     (simp add: new_online_order_def)

text \<open>The property at a caller of \<^verbatim>\<open>Order.create\<close> who asks for a paid, delivered
  order, and at the two routes with a body that does the same.\<close>

theorem creation_sets_initial_statuses_witness:
  "Order_create example_env 2 (forged_order_data ''cod'') empty_world
     = (Inr (mispriced_order\<lparr>order_total := js_int 500, paymentGateway := None\<rparr>),
        snd (Order_create example_env 2 (forged_order_data ''cod'') empty_world))
   \<and> paymentMethod (mispriced_order\<lparr>order_total := js_int 500, paymentGateway := None\<rparr>) = Cod
   \<and> paymentStatus (mispriced_order\<lparr>order_total := js_int 500, paymentGateway := None\<rparr>) = Not_applicable
   \<and> status (mispriced_order\<lparr>order_total := js_int 500, paymentGateway := None\<rparr>) = Processing
   \<and> Order_create example_env 2 (forged_order_data ''online'') empty_world
     = (Inr (new_online_order\<lparr>merchantTransactionId := None, paymentGateway := None\<rparr>),
        snd (Order_create example_env 2 (forged_order_data ''online'') empty_world))
   \<and> paymentMethod (new_online_order\<lparr>merchantTransactionId := None, paymentGateway := None\<rparr>) = Online
   \<and> paymentStatus (new_online_order\<lparr>merchantTransactionId := None, paymentGateway := None\<rparr>) = Pending
   \<and> status (new_online_order\<lparr>merchantTransactionId := None, paymentGateway := None\<rparr>) = Payment_pending
   \<and> create_cod_order example_env 2 7 (example_body ''cod'' 5) empty_world
     = (Inr mispriced_order, snd (create_cod_order example_env 2 7 (example_body ''cod'' 5) empty_world))
   \<and> 2 \<notin> order_id ` set (orders empty_world)
   \<and> paymentStatus mispriced_order = Not_applicable \<and> status mispriced_order = Processing
   \<and> initiate_create example_env 2 ''a-b'' 7 (example_body ''online'' 500) empty_world
     = (Inr new_online_order,
        snd (initiate_create example_env 2 ''a-b'' 7 (example_body ''online'' 500) empty_world))
   \<and> paymentStatus new_online_order = Pending \<and> status new_online_order = Payment_pending"
proof -
  let ?zc = "mispriced_order\<lparr>order_total := js_int 500, paymentGateway := None\<rparr>"
  let ?zo = "new_online_order\<lparr>merchantTransactionId := None, paymentGateway := None\<rparr>"
  have a: "Order_create example_env 2 (forged_order_data ''cod'') empty_world
             = (Inr ?zc, snd (Order_create example_env 2 (forged_order_data ''cod'') empty_world))"
    by (simp add: creation_defs example_defs)
  have b: "Order_create example_env 2 (forged_order_data ''online'') empty_world
             = (Inr ?zo, snd (Order_create example_env 2 (forged_order_data ''online'') empty_world))"
    by (simp add: creation_defs example_defs)
  have c: "create_cod_order example_env 2 7 (example_body ''cod'' 5) empty_world
     = (Inr mispriced_order, snd (create_cod_order example_env 2 7 (example_body ''cod'' 5) empty_world))"
    by (simp add: create_cod_mispriced)
  have d: "initiate_create example_env 2 ''a-b'' 7 (example_body ''online'' 500) empty_world
     = (Inr new_online_order,
        snd (initiate_create example_env 2 ''a-b'' 7 (example_body ''online'' 500) empty_world))"
    by (simp add: initiate_create_example)
  have f: "2 \<notin> order_id ` set (orders empty_world)"
    by (simp add: empty_world_def)
  have pc: "paymentMethod ?zc = Cod" and po: "paymentMethod ?zo = Online"
    by (simp_all add: mispriced_order_def new_online_order_def)
  note t1 = creation_sets_initial_statuses
         [of example_env 2 "forged_order_data ''cod''" empty_world ?zc
             "snd (Order_create example_env 2 (forged_order_data ''cod'') empty_world)"
             7 "example_body ''cod'' 5" empty_world mispriced_order
             "snd (create_cod_order example_env 2 7 (example_body ''cod'' 5) empty_world)"
             "''a-b''" "example_body ''online'' 500" empty_world new_online_order
             "snd (initiate_create example_env 2 ''a-b'' 7 (example_body ''online'' 500) empty_world)"]
  note t2 = creation_sets_initial_statuses
         [of example_env 2 "forged_order_data ''online''" empty_world ?zo
             "snd (Order_create example_env 2 (forged_order_data ''online'') empty_world)"
             7 "example_body ''cod'' 5" empty_world mispriced_order
             "snd (create_cod_order example_env 2 7 (example_body ''cod'' 5) empty_world)"
             "''a-b''" "example_body ''online'' 500" empty_world new_online_order
             "snd (initiate_create example_env 2 ''a-b'' 7 (example_body ''online'' 500) empty_world)"]
  have s1: "paymentStatus ?zc = Not_applicable \<and> status ?zc = Processing"
    using t1 a pc by blast
  have s2: "paymentStatus ?zo = Pending \<and> status ?zo = Payment_pending"
    using t2 b po by blast
  have s3: "paymentStatus mispriced_order = Not_applicable \<and> status mispriced_order = Processing"
    using t1 c f by blast
  have s4: "paymentStatus new_online_order = Pending \<and> status new_online_order = Payment_pending"
    using t1 d by blast
  show ?thesis
    using a b c d f pc po s1 s2 s3 s4 by blast
qed

subsection \<open>Stores in which orders with a merchant transaction id are online orders\<close>

text \<open>The callback handler and the two routes of \<^verbatim>\<open>routes/order.js\<close> keep this property of
  the store. \<^verbatim>\<open>POST /\<close> of \<^verbatim>\<open>routes/orders.js\<close> does not: it stores a cash order with the
  merchant transaction id of its caller (\<open>legacy_create_correlated_cod\<close>).\<close>

lemma correlated_update_by_id:
  "correlated_orders_online db \<Longrightarrow> merchantTransactionId d = None \<or> paymentMethod d = Online
     \<Longrightarrow> correlated_orders_online (update_by_id d db)"
  by (induction db) (auto simp: correlated_orders_online_def)

lemma correlated_modify_by_id:
  "correlated_orders_online db
     \<Longrightarrow> (\<And>x. merchantTransactionId (f x) = merchantTransactionId x \<and> paymentMethod (f x) = paymentMethod x)
     \<Longrightarrow> correlated_orders_online (modify_by_id i f db)"
  by (induction db) (auto simp: correlated_orders_online_def)

lemma phonepe_callback_keeps_correlated:
  assumes "correlated_orders_online (orders w)"
  shows "correlated_orders_online (orders (snd (phonepe_callback e req w)))"
proof (cases "fst (callback_lookup e req w)")
  case (Inl r)
  then show ?thesis using assms by (simp add: phonepe_callback_early(1))
next
  case (Inr t)
  obtain ord dr d where t: "t = (ord, dr, d)" by (cases t) auto
  define m where "m = js_str (data_merchantTransactionId d)"
  have lk: "callback_lookup e req w = (Inr (ord, dr, d), snd (callback_lookup e req w))"
    using Inr t by (cases "callback_lookup e req w") simp
  note facts = callback_lookup_Inr_verified [OF lk, folded m_def]
  have run: "phonepe_callback e req w = callback_apply ord dr d (emit [FindOne_mtid m] w)"
    using facts by (intro phonepe_callback_open_order) simp_all
  have "ord \<in> set (orders w)" "merchantTransactionId ord = Some m"
    using facts by (auto simp: findOne_mtid_def dest: find_Some_mem)
  then have online: "paymentMethod ord = Online"
    using assms correlated_orders_onlineD by blast
  show ?thesis
    unfolding run using assms online
    by (simp add: callback_apply_orders correlated_update_by_id)
qed

lemma initiate_payment_keeps_correlated:
  assumes "correlated_orders_online (orders w)"
  shows "correlated_orders_online (orders (snd (initiate_payment e newId user_uuid answer user_id body w)))"
proof (cases "initiate_create e newId user_uuid user_id body w")
  case (Pair r w1)
  show ?thesis
  proof (cases r)
    case (Inl err)
    with Pair have "w1 = w"
      by (auto simp: initiate_create_def Let_def split: if_splits dest: Order_create_Inl)
    with Pair Inl assms show ?thesis by (simp add: initiate_payment_def)
  next
    case (Inr created)
    from initiate_create_Inr [OF Pair [unfolded Inr]] obtain od where
      c: "Order_create e newId od w = (Inr created, w1)" and pm: "od_paymentMethod od = Some ''online''"
      by blast
    note s = Order_create_statuses [OF c]
    have "paymentMethod created = Online"
      using s pm by (cases "paymentMethod created") simp_all
    with s assms have w1: "correlated_orders_online (orders w1)"
      by (simp add: correlated_orders_online_def)
    show ?thesis
      using Pair Inr w1
      by (cases answer)
         (auto simp: initiate_payment_def initiate_gateway_def findByIdAndUpdate_def Let_def
               intro: correlated_modify_by_id)
  qed
qed

lemma create_cod_order_keeps_correlated:
  assumes "correlated_orders_online (orders w)"
  shows "correlated_orders_online (orders (snd (create_cod_order e newId user_id body w)))"
proof (cases "create_cod_order e newId user_id body w")
  case (Pair r w')
  let ?od = "\<lparr>od_userId = Some user_id, od_items = items_of (body_items body),
               od_shippingAddress = body_shippingAddress body,
               od_paymentMethod = Some ''cod'', od_paymentGateway = Some ''cod'',
               od_shippingCharge = body_shippingCharge body,
               od_total = body_total body,
               od_merchantTransactionId = None, od_gatewayTransactionId = None,
               od_paymentStatus = None, od_status = None\<rparr>"
  obtain r1 w1 where c: "Order_create e newId ?od w = (r1, w1)"
    by (cases "Order_create e newId ?od w") auto
  have w1: "correlated_orders_online (orders w1)"
  proof (cases r1)
    case (Inl err)
    with c assms show ?thesis by (auto dest: Order_create_Inl)
  next
    case (Inr doc)
    from Order_create_Inr [OF c [unfolded Inr]] obtain doc0 where
      b: "build_order e newId ?od = Some doc0" and x: "doc = pre_save True doc0"
      by blast
    have "merchantTransactionId doc = None"
      using build_order_fields [OF b] by (simp add: x pre_save_new)
    with Order_create_statuses [OF c [unfolded Inr]] assms show ?thesis
      by (simp add: correlated_orders_online_def)
  qed
  have "orders w' = orders w \<or> orders w' = orders w1"
    using Pair c
    by (auto simp: create_cod_order_def Let_def split: if_splits sum.splits option.splits)
  with assms w1 Pair show ?thesis by auto
qed

subsection \<open>The status of an order by merchant transaction id\<close>

text \<open>
  C10. The route changes no order. A success reply is built from the selection of id, payment
  status and status of a stored order that has the requested merchant transaction id and
  belongs to the requester, and carries that order's id and payment status. When every order
  with the requested id belongs to someone else, the reply is the 404 error.
\<close>

theorem order_status_by_mtid_owner_only:
  assumes "status_by_mtid requester mtid w = (r, w')"
  shows "orders w' = orders w
         \<and> (\<forall>rep. r = Inr rep \<longrightarrow>
               (\<exists>x \<in> set (orders w). merchantTransactionId x = Some mtid \<and> userId x = requester
                  \<and> rep = \<lparr>reply_status = ''success'',
                           reply_orderId = sel_id (select_status_fields x),
                           reply_paymentStatus = sel_paymentStatus (select_status_fields x)\<rparr>
                  \<and> reply_orderId rep = order_id x \<and> reply_paymentStatus rep = paymentStatus x))
         \<and> (mtid \<noteq> [] \<and> (\<forall>x \<in> set (orders w). merchantTransactionId x = Some mtid \<longrightarrow> userId x \<noteq> requester)
              \<longrightarrow> r = Inl (AppError ''Order not found for this transaction ID.'' 404))"
proof (cases "find (\<lambda>x. merchantTransactionId x = Some mtid \<and> userId x = requester) (orders w)")
  case None
  then have "\<And>x. x \<in> set (orders w) \<Longrightarrow> \<not> (merchantTransactionId x = Some mtid \<and> userId x = requester)"
    by (simp add: find_None_iff)
  with assms None show ?thesis
    by (auto simp: status_by_mtid_def Let_def emit_def split: if_splits)
next
  case (Some x)
  from find_Some_mem [OF Some] have "x \<in> set (orders w)" "merchantTransactionId x = Some mtid"
    "userId x = requester" by auto
  with assms Some show ?thesis
    by (auto simp: status_by_mtid_def Let_def emit_def select_status_fields_def split: if_splits)
qed

text \<open>The property at the example order, asked for by its owner and by another user.\<close>

theorem order_status_by_mtid_owner_only_witness:
  "status_by_mtid 7 ''MT_1'' example_world
     = (Inr \<lparr>reply_status = ''success'', reply_orderId = 1, reply_paymentStatus = Pending\<rparr>,
        emit [FindOne_mtid_user ''MT_1'' 7] example_world)
   \<and> (\<exists>x \<in> set (orders example_world). merchantTransactionId x = Some ''MT_1'' \<and> userId x = 7
         \<and> order_id x = 1 \<and> paymentStatus x = Pending)
   \<and> orders example_world = [example_order] \<and> userId example_order \<noteq> 8
   \<and> fst (status_by_mtid 8 ''MT_1'' example_world)
        = Inl (AppError ''Order not found for this transaction ID.'' 404)"
proof -
  have a: "status_by_mtid 7 ''MT_1'' example_world
     = (Inr \<lparr>reply_status = ''success'', reply_orderId = 1, reply_paymentStatus = Pending\<rparr>,
        emit [FindOne_mtid_user ''MT_1'' 7] example_world)"
    by (simp add: status_by_mtid_def Let_def emit_def select_status_fields_def example_defs)
  have o: "orders example_world = [example_order]" "userId example_order \<noteq> 8"
    by (simp_all add: example_defs)
  then have c: "\<forall>x \<in> set (orders example_world).
                 merchantTransactionId x = Some ''MT_1'' \<longrightarrow> userId x \<noteq> 8"
    by simp
  from order_status_by_mtid_owner_only [OF a]
  have "\<exists>x \<in> set (orders example_world). merchantTransactionId x = Some ''MT_1'' \<and> userId x = 7
         \<and> order_id x = 1 \<and> paymentStatus x = Pending"
    by auto
  moreover from order_status_by_mtid_owner_only [OF prod.collapse [symmetric], of 8 "''MT_1''" example_world] c
  have "fst (status_by_mtid 8 ''MT_1'' example_world)
          = Inl (AppError ''Order not found for this transaction ID.'' 404)"
    by simp
  ultimately show ?thesis using a o by blast
qed


end
